theory Spec2Isabelle
  imports Complex_Main "HOL-Library.Word"
begin

section \<open>Camera controller (helpers.js, class Camera)\<close>

text \<open>
  The camera object of \<^verbatim>\<open>helpers.js\<close>. Its fields are JavaScript numbers; the pointer
  deltas a browser delivers are finite, so the fields are modelled as reals. The
  sensitivities and the distance limits are fields of the object, set once by the
  constructor.
\<close>

record camera =
  rotationX :: real
  rotationY :: real
  distance :: real
  positionX :: real
  positionY :: real
  ROTATION_SENSITIVITY :: real
  ZOOM_SENSITIVITY :: real
  PAN_SENSITIVITY :: real
  MAX_DISTANCE :: real
  MIN_DISTANCE :: real
  isPointerLocked :: bool

text \<open>The constructor's assignments (\<^verbatim>\<open>initControls\<close> only registers the handlers).\<close>

definition Camera_constructor :: camera where
  "Camera_constructor =
     \<lparr> rotationX = 0, rotationY = 0, distance = 50, positionX = 0, positionY = 0,
       ROTATION_SENSITIVITY = 0.2, ZOOM_SENSITIVITY = 0.1, PAN_SENSITIVITY = 0.05,
       MAX_DISTANCE = 10000, MIN_DISTANCE = 0, isPointerLocked = False \<rparr>"

text \<open>
  The events the handlers of \<^verbatim>\<open>initControls\<close> are registered for. A pointer-lock change
  carries whether the lock element is now the canvas; a mouse move carries \<^verbatim>\<open>e.buttons\<close>,
  \<^verbatim>\<open>e.movementX\<close> and \<^verbatim>\<open>e.movementY\<close>.
\<close>

datatype camera_event =
    MouseDown
  | PointerLockChange bool
  | MouseMove int real real
  | ContextMenu

text \<open>The \<^verbatim>\<open>mousemove\<close> handler.\<close>

definition on_mousemove :: "int \<Rightarrow> real \<Rightarrow> real \<Rightarrow> camera \<Rightarrow> camera" where
  "on_mousemove buttons movementX movementY c =
     (if \<not> isPointerLocked c then c
      else if buttons = 1 then
        (let c1 = c\<lparr>rotationY := rotationY c + movementX * ROTATION_SENSITIVITY c\<rparr>;
             c2 = c1\<lparr>rotationX := rotationX c1 + movementY * ROTATION_SENSITIVITY c1\<rparr>
         in c2\<lparr>rotationX := max (- 89) (min 89 (rotationX c2))\<rparr>)
      else if buttons = 4 then
        (let c1 = c\<lparr>distance := distance c + movementY * ZOOM_SENSITIVITY c\<rparr>
         in c1\<lparr>distance := max (MIN_DISTANCE c1) (min (MAX_DISTANCE c1) (distance c1))\<rparr>)
      else if buttons = 2 then
        (let c1 = c\<lparr>positionX := positionX c - movementX * PAN_SENSITIVITY c\<rparr>
         in c1\<lparr>positionY := positionY c1 + movementY * PAN_SENSITIVITY c1\<rparr>)
      else c)"

text \<open>
  One event. \<^verbatim>\<open>mousedown\<close> only requests the pointer lock and \<^verbatim>\<open>contextmenu\<close> only
  prevents the default action: neither assigns a field.
\<close>

fun camera_step :: "camera \<Rightarrow> camera_event \<Rightarrow> camera" where
  "camera_step c MouseDown = c"
| "camera_step c (PointerLockChange locked) = c\<lparr>isPointerLocked := locked\<rparr>"
| "camera_step c (MouseMove buttons movementX movementY) =
     on_mousemove buttons movementX movementY c"
| "camera_step c ContextMenu = c"

definition camera_run :: "camera_event list \<Rightarrow> camera" where
  "camera_run evs = foldl camera_step Camera_constructor evs"

text \<open>
  \<^verbatim>\<open>getEye\<close> reads the fields and assigns none (\<^verbatim>\<open>radians\<close> of the matrix library is
  degrees times pi over 180). \<^verbatim>\<open>update\<close> likewise only reads \<^verbatim>\<open>distance\<close>,
  \<^verbatim>\<open>positionX\<close>, \<^verbatim>\<open>positionY\<close>, \<^verbatim>\<open>rotationX\<close> and \<^verbatim>\<open>rotationY\<close> to build a matrix with
  the external matrix library; the library's operations are its parameters here.
\<close>

definition radians :: "real \<Rightarrow> real" where
  "radians d = d * pi / 180"

definition getEye :: "camera \<Rightarrow> real \<times> real \<times> real" where
  "getEye c =
     (let rotX = radians (rotationX c); rotY = radians (rotationY c)
      in (distance c * sin rotY + positionX c,
          distance c * sin rotX + positionY c,
          distance c * cos rotY))"

definition update :: "'m \<Rightarrow> ('m \<Rightarrow> 'm \<Rightarrow> 'm) \<Rightarrow> (real \<Rightarrow> real \<Rightarrow> real \<Rightarrow> 'm) \<Rightarrow>
    (real \<Rightarrow> real \<times> real \<times> real \<Rightarrow> 'm) \<Rightarrow> camera \<Rightarrow> 'm" where
  "update mat4_m mult_m translate_m rotate_m c =
     (let m0 = mat4_m;
          m1 = mult_m m0 (translate_m 0 0 (- distance c));
          m2 = mult_m m1 (translate_m (positionX c) (positionY c) 0);
          m3 = mult_m m2 (rotate_m (rotationX c) (1, 0, 0));
          m4 = mult_m m3 (rotate_m (rotationY c) (0, 1, 0))
      in m4)"

text \<open>The two bounds of the camera state.\<close>

definition camera_bounds :: "camera \<Rightarrow> bool" where
  "camera_bounds c \<longleftrightarrow>
     - 89 \<le> rotationX c \<and> rotationX c \<le> 89 \<and>
     MIN_DISTANCE c \<le> distance c \<and> distance c \<le> MAX_DISTANCE c"

definition camera_limits :: "camera \<Rightarrow> bool" where
  "camera_limits c \<longleftrightarrow> MIN_DISTANCE c = 0 \<and> MAX_DISTANCE c = 10000"

section \<open>JavaScript values used by the loaders (shaders.js)\<close>

text \<open>
  Documents are modelled as ASCII strings. A JavaScript number is an exact real, one of
  the two infinities, or NaN: rounding to double precision, overflow and the sign of
  zero are not modelled. Integers (array lengths, parsed indices) are exact.
\<close>

datatype jsnum = Num real | PInf | NInf | NaN

fun jneg :: "jsnum \<Rightarrow> jsnum" where
  "jneg (Num a) = Num (- a)"
| "jneg PInf = NInf"
| "jneg NInf = PInf"
| "jneg NaN = NaN"

fun jadd :: "jsnum \<Rightarrow> jsnum \<Rightarrow> jsnum" where
  "jadd NaN _ = NaN"
| "jadd _ NaN = NaN"
| "jadd (Num a) (Num b) = Num (a + b)"
| "jadd PInf NInf = NaN"
| "jadd NInf PInf = NaN"
| "jadd PInf _ = PInf"
| "jadd NInf _ = NInf"
| "jadd (Num a) PInf = PInf"
| "jadd (Num a) NInf = NInf"

definition jsub :: "jsnum \<Rightarrow> jsnum \<Rightarrow> jsnum" where
  "jsub a b = jadd a (jneg b)"

text \<open>The sign of a non-NaN value: -1, 0 or 1.\<close>

fun jsign :: "jsnum \<Rightarrow> int" where
  "jsign (Num a) = (if a < 0 then - 1 else if a = 0 then 0 else 1)"
| "jsign PInf = 1"
| "jsign NInf = - 1"
| "jsign NaN = 0"

fun jmul :: "jsnum \<Rightarrow> jsnum \<Rightarrow> jsnum" where
  "jmul NaN _ = NaN"
| "jmul _ NaN = NaN"
| "jmul (Num a) (Num b) = Num (a * b)"
| "jmul a b =
     (if jsign a * jsign b = 0 then NaN else if jsign a * jsign b < 0 then NInf else PInf)"

text \<open>
  Division. A zero divisor is taken as +0: the only divisor of the loader is
  \<^verbatim>\<open>Math.sqrt\<close> of a sum of squares, which is never -0.
\<close>

fun jdiv :: "jsnum \<Rightarrow> jsnum \<Rightarrow> jsnum" where
  "jdiv NaN _ = NaN"
| "jdiv _ NaN = NaN"
| "jdiv (Num a) (Num b) =
     (if b = 0 then (if a = 0 then NaN else if a < 0 then NInf else PInf) else Num (a / b))"
| "jdiv (Num a) _ = Num 0"
| "jdiv a (Num b) = (if jsign a * (if b < 0 then - 1 else 1) < 0 then NInf else PInf)"
| "jdiv _ _ = NaN"

fun jsqrt :: "jsnum \<Rightarrow> jsnum" where
  "jsqrt (Num a) = (if a < 0 then NaN else Num (sqrt a))"
| "jsqrt PInf = PInf"
| "jsqrt NInf = NaN"
| "jsqrt NaN = NaN"

text \<open>A number is falsy when it is zero or NaN (\<^verbatim>\<open>x || d\<close> then yields \<^verbatim>\<open>d\<close>).\<close>

fun falsy :: "jsnum \<Rightarrow> bool" where
  "falsy (Num a) = (a = 0)"
| "falsy NaN = True"
| "falsy _ = False"

text \<open>
  \<^verbatim>\<open>x || d\<close> for a property \<^verbatim>\<open>x\<close> that holds a number or is undefined (\<open>None\<close>), and for
  one that holds an array or an object (always truthy) or is undefined.
\<close>

definition or_number :: "jsnum option \<Rightarrow> jsnum \<Rightarrow> jsnum" where
  "or_number x d = (case x of None \<Rightarrow> d | Some v \<Rightarrow> if falsy v then d else v)"

definition or_obj :: "'a option \<Rightarrow> 'a \<Rightarrow> 'a" where
  "or_obj x d = (case x of None \<Rightarrow> d | Some v \<Rightarrow> v)"

subsection \<open>Strings: trim, split, startsWith\<close>

definition newline :: char where
  "newline = CHR 0x0A"

text \<open>The white space of \<^verbatim>\<open>trim\<close> and of the pattern \<^verbatim>\<open>\s\<close>, within ASCII.\<close>

definition is_ws :: "char \<Rightarrow> bool" where
  "is_ws c \<longleftrightarrow> c = CHR 0x09 \<or> c = CHR 0x0A \<or> c = CHR 0x0B \<or> c = CHR 0x0C \<or> c = CHR 0x0D
     \<or> c = CHR 0x20"

definition trim :: "string \<Rightarrow> string" where
  "trim s = rev (dropWhile is_ws (rev (dropWhile is_ws s)))"

text \<open>\<^verbatim>\<open>s.split(d)\<close> for a one-character separator: always at least one piece.\<close>

fun split_on :: "char \<Rightarrow> string \<Rightarrow> string list" where
  "split_on d [] = [[]]"
| "split_on d (c # cs) =
     (if c = d then [] # split_on d cs
      else (case split_on d cs of [] \<Rightarrow> [[c]] | w # ws \<Rightarrow> (c # w) # ws))"

text \<open>
  \<^verbatim>\<open>s.split(/\s+/)\<close>: the pieces between maximal runs of white space. The flag says
  that the previous character was white space, so that a run separates only once.
\<close>

fun split_ws_run :: "bool \<Rightarrow> string \<Rightarrow> string list" where
  "split_ws_run g [] = [[]]"
| "split_ws_run g (c # cs) =
     (if is_ws c then (if g then split_ws_run True cs else [] # split_ws_run True cs)
      else (case split_ws_run False cs of [] \<Rightarrow> [[c]] | w # ws \<Rightarrow> (c # w) # ws))"

definition split_ws :: "string \<Rightarrow> string list" where
  "split_ws s = split_ws_run False s"

definition startsWith :: "string \<Rightarrow> string \<Rightarrow> bool" where
  "startsWith s p \<longleftrightarrow> take (length p) s = p"

text \<open>\<^verbatim>\<open>parts.join(' ')\<close>.\<close>

fun join_sp :: "string list \<Rightarrow> string" where
  "join_sp [] = []"
| "join_sp [w] = w"
| "join_sp (w # ws) = w @ '' '' @ join_sp ws"

text \<open>\<^verbatim>\<open>a[i]\<close> for a natural index: undefined (\<open>None\<close>) beyond the end.\<close>

definition nth_opt :: "'a list \<Rightarrow> nat \<Rightarrow> 'a option" where
  "nth_opt xs i = (if i < length xs then Some (xs ! i) else None)"

subsection \<open>parseInt, parseFloat and printing a number\<close>

text \<open>The character code, to compare characters by range.\<close>

definition char_code :: "char \<Rightarrow> nat" where
  "char_code c = of_char c"

definition is_digit :: "char \<Rightarrow> bool" where
  "is_digit c \<longleftrightarrow> 48 \<le> char_code c \<and> char_code c \<le> 57"

text \<open>The value of a digit of radix 16 (digits of radix 10 are those below 10).\<close>

definition digit_value :: "char \<Rightarrow> nat option" where
  "digit_value c =
     (if 48 \<le> char_code c \<and> char_code c \<le> 57 then Some (char_code c - 48)
      else if 97 \<le> char_code c \<and> char_code c \<le> 102 then Some (char_code c - 87)
      else if 65 \<le> char_code c \<and> char_code c \<le> 70 then Some (char_code c - 55)
      else None)"

definition is_radix_digit :: "nat \<Rightarrow> char \<Rightarrow> bool" where
  "is_radix_digit r c = (case digit_value c of None \<Rightarrow> False | Some d \<Rightarrow> d < r)"

definition digits_value :: "nat \<Rightarrow> string \<Rightarrow> nat" where
  "digits_value r ds = foldl (\<lambda>acc c. acc * r + (case digit_value c of None \<Rightarrow> 0 | Some d \<Rightarrow> d)) 0 ds"

text \<open>
  \<^verbatim>\<open>parseInt(s)\<close> with no radix argument: leading white space, an optional sign, an
  optional \<^verbatim>\<open>0x\<close> prefix selecting radix 16, then the longest run of digits; NaN
  (\<open>None\<close>) when that run is empty.
\<close>

definition parseInt :: "string \<Rightarrow> int option" where
  "parseInt s =
     (let s0 = dropWhile is_ws s;
          neg = startsWith s0 ''-'';
          s1 = (if startsWith s0 ''-'' \<or> startsWith s0 ''+'' then tl s0 else s0);
          hex = startsWith s1 ''0x'' \<or> startsWith s1 ''0X'';
          r = (if hex then 16 else 10);
          s2 = (if hex then drop 2 s1 else s1);
          ds = takeWhile (is_radix_digit r) s2
      in if ds = [] then None
         else Some ((if neg then - 1 else 1) * int (digits_value r ds)))"

text \<open>The exponent part of a decimal literal, when one is there: its value.\<close>

definition exponent_part :: "string \<Rightarrow> int option" where
  "exponent_part s =
     (if startsWith s ''e'' \<or> startsWith s ''E'' then
        (let s1 = tl s;
             neg = startsWith s1 ''-'';
             s2 = (if startsWith s1 ''-'' \<or> startsWith s1 ''+'' then tl s1 else s1);
             ds = takeWhile is_digit s2
         in if ds = [] then None
            else Some ((if neg then - 1 else 1) * int (digits_value 10 ds)))
      else None)"

definition pow10 :: "int \<Rightarrow> real" where
  "pow10 e = (if 0 \<le> e then 10 ^ nat e else 1 / 10 ^ nat (- e))"

text \<open>
  \<^verbatim>\<open>parseFloat(s)\<close>: leading white space, then the longest prefix that is a decimal
  literal (sign, \<^verbatim>\<open>Infinity\<close> or digits with an optional fraction and exponent); NaN
  when there is none.
\<close>

definition parseFloat :: "string \<Rightarrow> jsnum" where
  "parseFloat s =
     (let s0 = dropWhile is_ws s;
          neg = startsWith s0 ''-'';
          s1 = (if startsWith s0 ''-'' \<or> startsWith s0 ''+'' then tl s0 else s0)
      in if startsWith s1 ''Infinity'' then (if neg then NInf else PInf)
         else
           (let ip = takeWhile is_digit s1;
                r1 = dropWhile is_digit s1;
                dot = startsWith r1 ''.'';
                fp = (if dot then takeWhile is_digit (tl r1) else []);
                r2 = (if dot then dropWhile is_digit (tl r1) else r1)
            in if ip = [] \<and> fp = [] then NaN
               else
                 (let m = real (digits_value 10 (ip @ fp)) * pow10 (- int (length fp));
                      e = (case exponent_part r2 of None \<Rightarrow> 0 | Some x \<Rightarrow> x);
                      v = m * pow10 e
                  in Num (if neg then - v else v))))"

text \<open>\<^verbatim>\<open>parseFloat(x)\<close> where \<^verbatim>\<open>x\<close> may be undefined: the string "undefined" is no number.\<close>

definition parseFloat_opt :: "string option \<Rightarrow> jsnum" where
  "parseFloat_opt x = (case x of None \<Rightarrow> NaN | Some s \<Rightarrow> parseFloat s)"

text \<open>Printing an integer in decimal, as a template literal does.\<close>

definition digit_char :: "nat \<Rightarrow> char" where
  "digit_char d = char_of (48 + d)"

fun decimal :: "nat \<Rightarrow> string" where
  "decimal n = (if 10 \<le> n then decimal (n div 10) else []) @ [digit_char (n mod 10)]"

definition number_string :: "int \<Rightarrow> string" where
  "number_string i = (if 0 \<le> i then decimal (nat i) else CHR ''-'' # decimal (nat (- i)))"

section \<open>The OBJ parser (shaders.js, parseOBJ)\<close>

text \<open>
  A resolved index of \<^verbatim>\<open>addVertex\<close>: an integer, or NaN when the reference gave no
  index for the attribute (the sum of a length and undefined).
\<close>

datatype jsidx = Idx int | IdxNaN

definition string_of_idx :: "jsidx \<Rightarrow> string" where
  "string_of_idx x = (case x of Idx i \<Rightarrow> number_string i | IdxNaN \<Rightarrow> ''NaN'')"

text \<open>\<^verbatim>\<open>a[x]\<close> for a resolved index: undefined unless it is an index of the array.\<close>

definition js_index :: "'a list \<Rightarrow> jsidx \<Rightarrow> 'a option" where
  "js_index xs x =
     (case x of Idx i \<Rightarrow> (if 0 \<le> i \<and> i < int (length xs) then Some (xs ! nat i) else None)
      | IdxNaN \<Rightarrow> None)"

text \<open>The object \<^verbatim>\<open>{material, startIndex, indexCount}\<close> of \<^verbatim>\<open>startGeometry\<close>.\<close>

record geometry_rec =
  material :: "string option"
  startIndex :: int
  indexCount :: int

text \<open>
  One corner of a face, \<^verbatim>\<open>{vert, tex, norm}\<close>: each is the parsed integer, or
  undefined (\<open>None\<close>) when the reference has no such component.
\<close>

record corner =
  vert :: "int option"
  tex :: "int option"
  norm_i :: "int option"

text \<open>
  An entry of the log of the calls of \<^verbatim>\<open>addVertex\<close>: the three arguments, the three
  resolved indices and the index returned.
\<close>

type_synonym vertex_call =
  "(int option \<times> int option \<times> int option) \<times> (jsidx \<times> jsidx \<times> jsidx) \<times> nat"

text \<open>
  The variables of \<^verbatim>\<open>parseOBJ\<close> that its closures share. The last field is a ghost: the
  log of the calls of \<^verbatim>\<open>addVertex\<close>, which the parser only appends to and never reads.
\<close>

record obj_state =
  positions :: "jsnum list list"
  texcoords :: "jsnum list list"
  normals :: "jsnum list list"
  vertexMap :: "string \<Rightarrow> nat option"
  finalPositions :: "jsnum list"
  finalTexcoords :: "jsnum list"
  finalNormals :: "jsnum list"
  indices :: "nat list"
  geometries :: "geometry_rec list"
  geometry :: "geometry_rec option"
  vertexCount :: nat
  calls :: "vertex_call list"

definition obj_init :: obj_state where
  "obj_init =
     \<lparr> positions = [[Num 0, Num 0, Num 0]], texcoords = [[Num 0, Num 0]],
       normals = [[Num 0, Num 0, Num 0]], vertexMap = Map.empty,
       finalPositions = [], finalTexcoords = [], finalNormals = [], indices = [],
       geometries = [], geometry = None, vertexCount = 0, calls = [] \<rparr>"

text \<open>
  The closing of the open section, as \<^verbatim>\<open>startGeometry\<close> and the end of \<^verbatim>\<open>parseOBJ\<close>
  both write it: its length is set, and it is kept when the length is positive.
\<close>

definition close_geometry :: "obj_state \<Rightarrow> obj_state" where
  "close_geometry st =
     (case geometry st of
        None \<Rightarrow> st
      | Some g \<Rightarrow>
          (let g1 = g\<lparr>indexCount := int (length (indices st)) - startIndex g\<rparr>;
               st1 = st\<lparr>geometry := Some g1\<rparr>
           in if indexCount g1 > 0 then st1\<lparr>geometries := geometries st1 @ [g1]\<rparr> else st1))"

definition startGeometry :: "string option \<Rightarrow> obj_state \<Rightarrow> obj_state" where
  "startGeometry mat st =
     (let st1 = close_geometry st
      in st1\<lparr>geometry :=
           Some \<lparr>material = mat, startIndex = int (length (indices st1)), indexCount = 0\<rparr>\<rparr>)"

text \<open>
  \<^verbatim>\<open>i > 0 ? i : a.length + i\<close> for an argument that is an integer or undefined:
  undefined is not greater than 0, and a length plus undefined is NaN.
\<close>

definition resolve_index :: "nat \<Rightarrow> int option \<Rightarrow> jsidx" where
  "resolve_index len i =
     (case i of None \<Rightarrow> IdxNaN | Some k \<Rightarrow> if k > 0 then Idx k else Idx (int len + k))"

text \<open>The template literal that keys \<^verbatim>\<open>vertexMap\<close>.\<close>

definition vertex_key :: "jsidx \<Rightarrow> jsidx \<Rightarrow> jsidx \<Rightarrow> string" where
  "vertex_key p t n = string_of_idx p @ ''/'' @ string_of_idx t @ ''/'' @ string_of_idx n"

definition addVertex :: "int option \<Rightarrow> int option \<Rightarrow> int option \<Rightarrow> obj_state \<Rightarrow> nat \<times> obj_state" where
  "addVertex posIndex texIndex normIndex st =
     (let p = resolve_index (length (positions st)) posIndex;
          t = resolve_index (length (texcoords st)) texIndex;
          n = resolve_index (length (normals st)) normIndex;
          key = vertex_key p t n
      in case vertexMap st key of
           Some index \<Rightarrow>
             (index, st\<lparr>calls := calls st @ [((posIndex, texIndex, normIndex), (p, t, n), index)]\<rparr>)
         | None \<Rightarrow>
             (let index = vertexCount st;
                  position = or_obj (js_index (positions st) p) [Num 0, Num 0, Num 0];
                  texcoord = or_obj (js_index (texcoords st) t) [Num 0, Num 0];
                  normal = or_obj (js_index (normals st) n) [Num 0, Num 1, Num 0]
              in (index,
                  st\<lparr>vertexCount := vertexCount st + 1,
                     vertexMap := (vertexMap st)(key \<mapsto> index),
                     finalPositions := finalPositions st @ position,
                     finalTexcoords := finalTexcoords st @ texcoord,
                     finalNormals := finalNormals st @ normal,
                     calls := calls st @ [((posIndex, texIndex, normIndex), (p, t, n), index)]\<rparr>)))"

text \<open>
  A face reference \<^verbatim>\<open>v/t/n\<close>: split at the slashes, each piece parsed with
  \<^verbatim>\<open>parseInt(v) || 0\<close>, the first three destructured.
\<close>

definition parse_corner :: "string \<Rightarrow> corner" where
  "parse_corner s =
     (let ns = map (\<lambda>v. case parseInt v of None \<Rightarrow> 0 | Some i \<Rightarrow> i) (split_on (CHR ''/'') s)
      in \<lparr>vert = nth_opt ns 0, tex = nth_opt ns 1, norm_i = nth_opt ns 2\<rparr>)"

text \<open>
  The body of the triangulation loop: the three calls of \<^verbatim>\<open>addVertex\<close>, left to right,
  then the push of the three indices.
\<close>

definition push_triangle :: "corner \<Rightarrow> corner \<Rightarrow> corner \<Rightarrow> obj_state \<Rightarrow> obj_state" where
  "push_triangle v0 v1 v2 st =
     (let r0 = addVertex (vert v0) (tex v0) (norm_i v0) st;
          r1 = addVertex (vert v1) (tex v1) (norm_i v1) (snd r0);
          r2 = addVertex (vert v2) (tex v2) (norm_i v2) (snd r1);
          st3 = snd r2
      in st3\<lparr>indices := indices st3 @ [fst r0, fst r1, fst r2]\<rparr>)"

text \<open>The loop \<^verbatim>\<open>for (let i = 1; i < vertices.length - 1; i++)\<close>, from \<open>i\<close> on.\<close>

function triangulate :: "nat \<Rightarrow> corner list \<Rightarrow> obj_state \<Rightarrow> obj_state" where
  "triangulate i vertices st =
     (if int i < int (length vertices) - 1
      then triangulate (i + 1) vertices
             (push_triangle (vertices ! 0) (vertices ! i) (vertices ! (i + 1)) st)
      else st)"
  by pat_completeness auto
termination
  by (relation "measure (\<lambda>(i, vertices, st). length vertices - i)") auto

text \<open>The three components \<^verbatim>\<open>x, y, z\<close> destructured from a mapped slice: NaN where absent.\<close>

definition component :: "jsnum list \<Rightarrow> nat \<Rightarrow> jsnum" where
  "component xs i = (case nth_opt xs i of None \<Rightarrow> NaN | Some v \<Rightarrow> v)"

text \<open>
  The records the \<^verbatim>\<open>v\<close>, \<^verbatim>\<open>vt\<close> and \<^verbatim>\<open>vn\<close> cases push, from \<^verbatim>\<open>parts.slice(1)\<close>: the
  first three words parsed; the first word and one minus the second (\<^verbatim>\<open>parts[1]\<close>,
  \<^verbatim>\<open>parts[2]\<close> may be undefined); the first three parsed and divided by their length.
\<close>

definition position_record :: "string list \<Rightarrow> jsnum list" where
  "position_record args = map parseFloat (take 3 args)"

definition texcoord_record :: "string list \<Rightarrow> jsnum list" where
  "texcoord_record args =
     [parseFloat_opt (nth_opt args 0), jsub (Num 1) (parseFloat_opt (nth_opt args 1))]"

definition normal_record :: "string list \<Rightarrow> jsnum list" where
  "normal_record args =
     (let xs = map parseFloat (take 3 args);
          x = component xs 0; y = component xs 1; z = component xs 2;
          len = jsqrt (jadd (jadd (jmul x x) (jmul y y)) (jmul z z))
      in [jdiv x len, jdiv y len, jdiv z len])"

text \<open>
  The body of the loop over the lines: the line is trimmed, an empty line or a comment
  is skipped, and the first word selects the case. \<^verbatim>\<open>args\<close> is \<^verbatim>\<open>parts.slice(1)\<close>.
\<close>

definition parseOBJ_line :: "obj_state \<Rightarrow> string \<Rightarrow> obj_state" where
  "parseOBJ_line st raw =
     (let line = trim raw
      in if line = [] \<or> startsWith line ''#'' then st
         else
           (case split_ws line of
              [] \<Rightarrow> st
            | command # args \<Rightarrow>
                if command = ''v'' then
                  st\<lparr>positions := positions st @ [position_record args]\<rparr>
                else if command = ''vt'' then
                  st\<lparr>texcoords := texcoords st @ [texcoord_record args]\<rparr>
                else if command = ''vn'' then
                  st\<lparr>normals := normals st @ [normal_record args]\<rparr>
                else if command = ''usemtl'' then
                  startGeometry (nth_opt args 0) st
                else if command = ''f'' then
                  (let st1 = (if geometry st = None then startGeometry (Some ''default'') st
                              else st)
                   in triangulate 1 (map parse_corner args) st1)
                else st))"

text \<open>The object \<^verbatim>\<open>parseOBJ\<close> returns.\<close>

record obj_data =
  out_positions :: "jsnum list"
  out_texcoords :: "jsnum list"
  out_normals :: "jsnum list"
  out_indices :: "nat list"
  out_geometries :: "geometry_rec list"

text \<open>The state after the lines of a document, and after the closing of its last section.\<close>

definition parseOBJ_lines :: "obj_state \<Rightarrow> string list \<Rightarrow> obj_state" where
  "parseOBJ_lines st ls = foldl parseOBJ_line st ls"

definition parseOBJ_state :: "string \<Rightarrow> obj_state" where
  "parseOBJ_state doc = close_geometry (parseOBJ_lines obj_init (split_on newline doc))"

definition parseOBJ :: "string \<Rightarrow> obj_data" where
  "parseOBJ doc =
     (let st = parseOBJ_state doc
      in \<lparr> out_positions = finalPositions st, out_texcoords = finalTexcoords st,
           out_normals = finalNormals st, out_indices = indices st,
           out_geometries = geometries st \<rparr>)"

text \<open>A document written as its lines.\<close>

fun unlines :: "string list \<Rightarrow> string" where
  "unlines [] = []"
| "unlines [l] = l"
| "unlines (l # ls) = l @ [newline] @ unlines ls"

subsection \<open>What a document declares, read off its lines\<close>

text \<open>
  The words of a line that the loop dispatches on: none for an empty line or a comment.
\<close>

definition line_words :: "string \<Rightarrow> string list" where
  "line_words raw =
     (let line = trim raw in if line = [] \<or> startsWith line ''#'' then [] else split_ws line)"

text \<open>The number of corners of a face record, for a line that is one.\<close>

definition face_corner_count :: "string \<Rightarrow> nat option" where
  "face_corner_count raw =
     (case line_words raw of
        [] \<Rightarrow> None
      | command # args \<Rightarrow> if command = ''f'' then Some (length args) else None)"

definition face_corner_counts :: "string \<Rightarrow> nat list" where
  "face_corner_counts doc = List.map_filter face_corner_count (split_on newline doc)"

text \<open>The record a \<^verbatim>\<open>v\<close>, \<^verbatim>\<open>vt\<close> or \<^verbatim>\<open>vn\<close> line declares, for a line that is one.\<close>

definition declared_record :: "string \<Rightarrow> string \<Rightarrow> string list option" where
  "declared_record kind raw =
     (case line_words raw of
        [] \<Rightarrow> None
      | command # args \<Rightarrow> if command = kind then Some args else None)"

definition declared_positions :: "string list \<Rightarrow> jsnum list list" where
  "declared_positions ls = map position_record (List.map_filter (declared_record ''v'') ls)"

definition declared_texcoords :: "string list \<Rightarrow> jsnum list list" where
  "declared_texcoords ls = map texcoord_record (List.map_filter (declared_record ''vt'') ls)"

definition declared_normals :: "string list \<Rightarrow> jsnum list list" where
  "declared_normals ls = map normal_record (List.map_filter (declared_record ''vn'') ls)"

text \<open>
  The sections chain from \<open>s\<close> to \<open>e\<close>: each starts where the one before ended (the first
  at \<open>s\<close>), each has a positive length, and the last ends at \<open>e\<close>.
\<close>

fun spans_from :: "int \<Rightarrow> geometry_rec list \<Rightarrow> int \<Rightarrow> bool" where
  "spans_from s [] e \<longleftrightarrow> s = e"
| "spans_from s (g # gs) e \<longleftrightarrow>
     startIndex g = s \<and> 0 < indexCount g \<and> spans_from (s + indexCount g) gs e"

text \<open>The index interval of a section.\<close>

definition span_set :: "geometry_rec \<Rightarrow> int set" where
  "span_set g = {startIndex g ..< startIndex g + indexCount g}"

text \<open>
  The invariant of the loop for the sections: with no section open, nothing has been
  emitted; otherwise the closed sections chain from 0 to the start of the open one,
  which lies within the indices emitted so far.
\<close>

definition sections_inv :: "obj_state \<Rightarrow> bool" where
  "sections_inv st =
     (case geometry st of
        None \<Rightarrow> geometries st = [] \<and> indices st = []
      | Some g \<Rightarrow> spans_from 0 (geometries st) (startIndex g) \<and>
                 startIndex g \<le> int (length (indices st)))"

text \<open>The parts of an entry of the log of \<^verbatim>\<open>addVertex\<close>.\<close>

definition call_source :: "vertex_call \<Rightarrow> int option \<times> int option \<times> int option" where
  "call_source c = fst c"

definition call_resolved :: "vertex_call \<Rightarrow> jsidx \<times> jsidx \<times> jsidx" where
  "call_resolved c = fst (snd c)"

definition call_index :: "vertex_call \<Rightarrow> nat" where
  "call_index c = snd (snd c)"

definition call_key :: "vertex_call \<Rightarrow> string" where
  "call_key c = (case call_resolved c of (p, t, n) \<Rightarrow> vertex_key p t n)"

text \<open>
  The corners of a face record, for a line that is one, and the fan over a list of
  corners: for I from 1 to the corner count minus 2, the corners 0, I and I + 1.
\<close>

definition face_corners :: "string \<Rightarrow> corner list option" where
  "face_corners raw =
     (case line_words raw of
        [] \<Rightarrow> None
      | command # args \<Rightarrow> if command = ''f'' then Some (map parse_corner args) else None)"

definition fan :: "corner list \<Rightarrow> corner list" where
  "fan vs = concat (map (\<lambda>i. [vs ! 0, vs ! i, vs ! (i + 1)]) [1 ..< length vs - 1])"

definition corner_args :: "corner \<Rightarrow> int option \<times> int option \<times> int option" where
  "corner_args c = (vert c, tex c, norm_i c)"

definition fan_references :: "string \<Rightarrow> (int option \<times> int option \<times> int option) list" where
  "fan_references doc =
     map corner_args (concat (map fan (List.map_filter face_corners (split_on newline doc))))"

text \<open>The emitted indices are the indices the calls of \<^verbatim>\<open>addVertex\<close> returned, in order.\<close>

definition log_inv :: "obj_state \<Rightarrow> bool" where
  "log_inv st \<longleftrightarrow> indices st = map call_index (calls st)"

text \<open>
  The invariant of the vertex map: every logged call finds its index under its key,
  every index of the map is below the running count, and no two keys share an index.
\<close>

definition vertex_inv :: "obj_state \<Rightarrow> bool" where
  "vertex_inv st \<longleftrightarrow>
     (\<forall>c\<in>set (calls st). vertexMap st (call_key c) = Some (call_index c)) \<and>
     (\<forall>k i. vertexMap st k = Some i \<longrightarrow> i < vertexCount st) \<and>
     (\<forall>k k' i. vertexMap st k = Some i \<longrightarrow> vertexMap st k' = Some i \<longrightarrow> k = k')"

text \<open>
  A mesh document whose first face gives no texture index (\<^verbatim>\<open>1//1\<close>) and whose second
  face names the texture coordinate declared between the two faces.
\<close>

definition zero_index_document :: string where
  "zero_index_document =
     unlines [''v 0 0 0'', ''vn 0 0 1'', ''f 1//1 1//1 1//1'', ''vt 0.5 0.5'',
              ''f 1/1/1 1/1/1 1/1/1'']"

section \<open>The MTL parser (shaders.js, parseMTL)\<close>

text \<open>
  The handle \<^verbatim>\<open>loadImageTexture(gl, fullPath)\<close> returns, identified by the path it
  loads. Creating the texture and fetching the image are effects on the GPU context,
  outside this model.
\<close>

datatype texture = Texture string

text \<open>
  A material object: every property is undefined (\<open>None\<close>) until a handler assigns it.
  \<^verbatim>\<open>illum\<close> holds the result of \<^verbatim>\<open>parseInt\<close>, a number like the others.
\<close>

record mtl_material =
  shininess :: "jsnum option"
  ambient :: "jsnum list option"
  diffuse :: "jsnum list option"
  specular :: "jsnum list option"
  emissive :: "jsnum list option"
  opticalDensity :: "jsnum option"
  opacity :: "jsnum option"
  illum :: "jsnum option"
  map_Kd :: "texture option"
  map_Bump :: "texture option"
  map_Ks :: "texture option"

definition empty_material :: mtl_material where
  "empty_material =
     \<lparr> shininess = None, ambient = None, diffuse = None, specular = None, emissive = None,
       opticalDensity = None, opacity = None, illum = None,
       map_Kd = None, map_Bump = None, map_Ks = None \<rparr>"

datatype js_error = TypeError

text \<open>
  The dictionary \<^verbatim>\<open>materials\<close> and the variable \<^verbatim>\<open>material\<close>. The variable refers to the
  object that \<^verbatim>\<open>newmtl\<close> stored last, so it is modelled by the name that object is
  stored under (\<open>None\<close> while it is undefined), and an assignment to a property of
  \<^verbatim>\<open>material\<close> updates the entry of that name. Names that are properties of
  \<^verbatim>\<open>Object.prototype\<close> are not treated specially as keys of the dictionary.
\<close>

record mtl_state =
  materials :: "string \<Rightarrow> mtl_material option"
  material_name :: "string option"

definition mtl_init :: mtl_state where
  "mtl_init = \<lparr> materials = Map.empty, material_name = None \<rparr>"

text \<open>\<^verbatim>\<open>loadTextureFromPath\<close>: the words joined, backslashes replaced, below \<^verbatim>\<open>js/\<close>.\<close>

definition loadTextureFromPath :: "string list \<Rightarrow> texture" where
  "loadTextureFromPath parts =
     Texture (''js/'' @ map (\<lambda>c. if c = CHR 0x5C then CHR ''/'' else c) (join_sp parts))"

text \<open>\<^verbatim>\<open>parseInt(parts[0])\<close> as a number: NaN when there is no word or no digit.\<close>

definition parseInt_num :: "string option \<Rightarrow> jsnum" where
  "parseInt_num x =
     (case x of None \<Rightarrow> NaN
      | Some s \<Rightarrow> (case parseInt s of None \<Rightarrow> NaN | Some i \<Rightarrow> Num (real_of_int i)))"

text \<open>
  The handlers of the table \<^verbatim>\<open>keywords\<close> that assign a property of \<^verbatim>\<open>material\<close>: the
  assignment a keyword makes, for a keyword that has such a handler.
\<close>

definition property_handler :: "string \<Rightarrow> string list \<Rightarrow> (mtl_material \<Rightarrow> mtl_material) option" where
  "property_handler keyword parts =
     (if keyword = ''Ns'' then Some (\<lambda>m. m\<lparr>shininess := Some (parseFloat_opt (nth_opt parts 0))\<rparr>)
      else if keyword = ''Ka'' then Some (\<lambda>m. m\<lparr>ambient := Some (map parseFloat parts)\<rparr>)
      else if keyword = ''Kd'' then Some (\<lambda>m. m\<lparr>diffuse := Some (map parseFloat parts)\<rparr>)
      else if keyword = ''Ks'' then Some (\<lambda>m. m\<lparr>specular := Some (map parseFloat parts)\<rparr>)
      else if keyword = ''Ke'' then Some (\<lambda>m. m\<lparr>emissive := Some (map parseFloat parts)\<rparr>)
      else if keyword = ''Ni'' then
        Some (\<lambda>m. m\<lparr>opticalDensity := Some (parseFloat_opt (nth_opt parts 0))\<rparr>)
      else if keyword = ''d'' then Some (\<lambda>m. m\<lparr>opacity := Some (parseFloat_opt (nth_opt parts 0))\<rparr>)
      else if keyword = ''illum'' then Some (\<lambda>m. m\<lparr>illum := Some (parseInt_num (nth_opt parts 0))\<rparr>)
      else if keyword = ''map_Kd'' then Some (\<lambda>m. m\<lparr>map_Kd := Some (loadTextureFromPath parts)\<rparr>)
      else if keyword = ''map_Bump'' then
        Some (\<lambda>m. m\<lparr>map_Bump := Some (loadTextureFromPath parts)\<rparr>)
      else if keyword = ''map_Ks'' then Some (\<lambda>m. m\<lparr>map_Ks := Some (loadTextureFromPath parts)\<rparr>)
      else None)"

text \<open>
  \<^verbatim>\<open>keywords\<close> is a plain object, so \<^verbatim>\<open>keywords[keyword]\<close> also finds what it inherits
  from \<^verbatim>\<open>Object.prototype\<close>. Called as \<^verbatim>\<open>handler(...)\<close> with no receiver,
  \<^verbatim>\<open>constructor\<close> and \<^verbatim>\<open>toString\<close> return; the others below raise a TypeError
  (\<^verbatim>\<open>__proto__\<close> is an object, not a function).
\<close>

definition inherited_raising :: "string list" where
  "inherited_raising =
     [''__proto__'', ''hasOwnProperty'', ''isPrototypeOf'', ''propertyIsEnumerable'',
      ''toLocaleString'', ''valueOf'', ''__defineGetter__'', ''__defineSetter__'',
      ''__lookupGetter__'', ''__lookupSetter__'']"

text \<open>
  The body of the loop over the lines of a material document. A property handler
  assigns to \<^verbatim>\<open>material\<close>, which raises a TypeError while \<^verbatim>\<open>material\<close> is undefined.
\<close>

definition parseMTL_line :: "mtl_state \<Rightarrow> string \<Rightarrow> js_error + mtl_state" where
  "parseMTL_line st raw =
     (let line = trim raw
      in if line = [] \<or> startsWith line ''#'' then Inr st
         else
           (case split_ws line of
              [] \<Rightarrow> Inr st
            | keyword # parts \<Rightarrow>
                if keyword = ''newmtl'' then
                  Inr (st\<lparr>materials := (materials st)(join_sp parts \<mapsto> empty_material),
                          material_name := Some (join_sp parts)\<rparr>)
                else
                  (case property_handler keyword parts of
                     Some assign \<Rightarrow>
                       (case material_name st of
                          None \<Rightarrow> Inl TypeError
                        | Some k \<Rightarrow>
                            Inr (st\<lparr>materials :=
                                   (materials st)(k := map_option assign (materials st k))\<rparr>))
                   | None \<Rightarrow>
                       if keyword \<in> set inherited_raising then Inl TypeError else Inr st)))"

fun parseMTL_lines :: "mtl_state \<Rightarrow> string list \<Rightarrow> js_error + mtl_state" where
  "parseMTL_lines st [] = Inr st"
| "parseMTL_lines st (l # ls) =
     (case parseMTL_line st l of Inl e \<Rightarrow> Inl e | Inr st1 \<Rightarrow> parseMTL_lines st1 ls)"

definition parseMTL :: "string \<Rightarrow> js_error + (string \<Rightarrow> mtl_material option)" where
  "parseMTL doc =
     (case parseMTL_lines mtl_init (split_on newline doc) of
        Inl e \<Rightarrow> Inl e
      | Inr st \<Rightarrow> Inr (materials st))"

text \<open>The material a document defines under a name, when the document parses.\<close>

definition parsed_material :: "string \<Rightarrow> string \<Rightarrow> mtl_material option" where
  "parsed_material doc name = (case parseMTL doc of Inl e \<Rightarrow> None | Inr ms \<Rightarrow> ms name)"

text \<open>
  The keyword of a line, when it has one, and the assignment \<^verbatim>\<open>material.p = v\<close> of a
  handler while \<^verbatim>\<open>material\<close> is the object stored under the name \<open>k\<close>.
\<close>

definition line_keyword :: "string \<Rightarrow> string option" where
  "line_keyword raw = (case line_words raw of [] \<Rightarrow> None | keyword # parts \<Rightarrow> Some keyword)"

definition assign_material :: "string \<Rightarrow> (mtl_material \<Rightarrow> mtl_material) \<Rightarrow> mtl_state \<Rightarrow> mtl_state" where
  "assign_material k assign st =
     st\<lparr>materials := (materials st)(k := map_option assign (materials st k))\<rparr>"

section \<open>Material resolution (shaders.js, createGeometryWithMaterials)\<close>

text \<open>
  The object literal built for \<^verbatim>\<open>material\<close>: the spread of the looked-up material (no
  property when it is undefined), then the six properties with their defaults.
  \<^verbatim>\<open>m?.p || d\<close> takes the default when the material or the property is undefined, and
  for a number also when it is zero or NaN.
\<close>

definition resolve_material :: "mtl_material option \<Rightarrow> mtl_material" where
  "resolve_material m =
     (let spread = (case m of None \<Rightarrow> empty_material | Some x \<Rightarrow> x)
      in spread\<lparr>
           shininess := Some (or_number (Option.bind m shininess) (Num 32.0)),
           ambient := Some (or_obj (Option.bind m ambient) [Num 1.0, Num 1.0, Num 1.0]),
           diffuse := Some (or_obj (Option.bind m diffuse) [Num 0.64, Num 0.64, Num 0.64]),
           specular := Some (or_obj (Option.bind m specular) [Num 0.2, Num 0.2, Num 0.2]),
           opacity := Some (or_number (Option.bind m opacity) (Num 1.0)),
           illum := Some (or_number (Option.bind m illum) (Num 2))\<rparr>)"

text \<open>An element of \<^verbatim>\<open>meshes\<close>.\<close>

record mesh =
  mesh_material :: mtl_material
  mesh_startIndex :: int
  mesh_indexCount :: int

text \<open>
  \<^verbatim>\<open>materials[geom.material]\<close>: an undefined name is the property key "undefined".
\<close>

definition material_lookup :: "(string \<Rightarrow> mtl_material option) \<Rightarrow> string option \<Rightarrow> mtl_material option" where
  "material_lookup ms name = ms (case name of None \<Rightarrow> ''undefined'' | Some n \<Rightarrow> n)"

definition resolve_mesh :: "(string \<Rightarrow> mtl_material option) \<Rightarrow> geometry_rec \<Rightarrow> mesh" where
  "resolve_mesh ms geom =
     \<lparr> mesh_material = resolve_material (material_lookup ms (material geom)),
       mesh_startIndex = startIndex geom,
       mesh_indexCount = indexCount geom \<rparr>"

text \<open>
  The object \<^verbatim>\<open>createGeometryWithMaterials\<close> returns. A \<^verbatim>\<open>Float32Array\<close> rounds each
  number to single precision, which is the parameter \<open>fround\<close>; a \<^verbatim>\<open>Uint16Array\<close> keeps
  each index modulo 65536.
\<close>

record 'f geometry_data =
  gd_positions :: "'f list"
  gd_texcoords :: "'f list"
  gd_normals :: "'f list"
  gd_indices :: "16 word list"
  meshes :: "mesh list"

definition createGeometryWithMaterials ::
  "(jsnum \<Rightarrow> 'f) \<Rightarrow> obj_data \<Rightarrow> (string \<Rightarrow> mtl_material option) \<Rightarrow> 'f geometry_data" where
  "createGeometryWithMaterials fround objData ms =
     \<lparr> gd_positions = map fround (out_positions objData),
       gd_texcoords = map fround (out_texcoords objData),
       gd_normals = map fround (out_normals objData),
       gd_indices = map of_nat (out_indices objData),
       meshes = map (resolve_mesh ms) (out_geometries objData) \<rparr>"

text \<open>The material with every default, as the spec lists them.\<close>

definition default_material :: mtl_material where
  "default_material =
     \<lparr> shininess = Some (Num 32.0), ambient = Some [Num 1.0, Num 1.0, Num 1.0],
       diffuse = Some [Num 0.64, Num 0.64, Num 0.64],
       specular = Some [Num 0.2, Num 0.2, Num 0.2], emissive = None,
       opticalDensity = None, opacity = Some (Num 1.0), illum = Some (Num 2),
       map_Kd = None, map_Bump = None, map_Ks = None \<rparr>"

section \<open>The fragment shader (shaders.js, fragmentShaderSource)\<close>

text \<open>
  The shader computes in floating point on the GPU; here its arithmetic is the exact
  arithmetic of the reals (no rounding, no NaN), a \<^verbatim>\<open>vec3\<close> is a triple, and \<^verbatim>\<open>pow\<close> is the
  real power \<open>powr\<close>.
\<close>

type_synonym vec3 = "real \<times> real \<times> real"

definition vec3_of :: "real \<Rightarrow> vec3" where
  "vec3_of a = (a, a, a)"

fun vadd :: "vec3 \<Rightarrow> vec3 \<Rightarrow> vec3" where
  "vadd (a, b, c) (x, y, z) = (a + x, b + y, c + z)"

fun vsub :: "vec3 \<Rightarrow> vec3 \<Rightarrow> vec3" where
  "vsub (a, b, c) (x, y, z) = (a - x, b - y, c - z)"

fun vmul :: "vec3 \<Rightarrow> vec3 \<Rightarrow> vec3" where
  "vmul (a, b, c) (x, y, z) = (a * x, b * y, c * z)"

fun vscale :: "vec3 \<Rightarrow> real \<Rightarrow> vec3" where
  "vscale (a, b, c) k = (a * k, b * k, c * k)"

fun vdiv :: "vec3 \<Rightarrow> real \<Rightarrow> vec3" where
  "vdiv (a, b, c) k = (a / k, b / k, c / k)"

fun vpow :: "vec3 \<Rightarrow> real \<Rightarrow> vec3" where
  "vpow (a, b, c) k = (a powr k, b powr k, c powr k)"

fun dot :: "vec3 \<Rightarrow> vec3 \<Rightarrow> real" where
  "dot (a, b, c) (x, y, z) = a * x + b * y + c * z"

definition normalize_vec :: "vec3 \<Rightarrow> vec3" where
  "normalize_vec v = vdiv v (sqrt (dot v v))"

definition clamp :: "real \<Rightarrow> real \<Rightarrow> real \<Rightarrow> real" where
  "clamp x lo hi = min (max x lo) hi"

text \<open>\<^verbatim>\<open>mix(x, y, a)\<close> is \<^verbatim>\<open>x * (1 - a) + y * a\<close>.\<close>

definition mix :: "vec3 \<Rightarrow> vec3 \<Rightarrow> real \<Rightarrow> vec3" where
  "mix x y a = vadd (vscale x (1 - a)) (vscale y a)"

definition PI :: real where
  "PI = 3.14159265359"

definition DistributionGGX :: "vec3 \<Rightarrow> vec3 \<Rightarrow> real \<Rightarrow> real" where
  "DistributionGGX N H roughness =
     (let a = roughness * roughness;
          a2 = a * a;
          NdotH = max (dot N H) 0;
          NdotH2 = NdotH * NdotH;
          nom = a2;
          denom0 = NdotH2 * (a2 - 1) + 1;
          denom = PI * denom0 * denom0
      in nom / denom)"

definition GeometrySchlickGGX :: "real \<Rightarrow> real \<Rightarrow> real" where
  "GeometrySchlickGGX NdotV roughness =
     (let r = roughness + 1;
          k = (r * r) / 8;
          nom = NdotV;
          denom = NdotV * (1 - k) + k
      in nom / denom)"

definition GeometrySmith :: "vec3 \<Rightarrow> vec3 \<Rightarrow> vec3 \<Rightarrow> real \<Rightarrow> real" where
  "GeometrySmith N V L roughness =
     (let NdotV = max (dot N V) 0;
          NdotL = max (dot N L) 0;
          ggx2 = GeometrySchlickGGX NdotV roughness;
          ggx1 = GeometrySchlickGGX NdotL roughness
      in ggx1 * ggx2)"

definition fresnelSchlick :: "real \<Rightarrow> vec3 \<Rightarrow> vec3" where
  "fresnelSchlick cosTheta F0 =
     vadd F0 (vscale (vsub (vec3_of 1) F0) (clamp (1 - cosTheta) 0 1 powr 5))"

text \<open>
  What one invocation of \<^verbatim>\<open>main\<close> reads: the six texture samples at \<^verbatim>\<open>vTexCoord\<close> (the
  channels the shader uses), the two other varyings, and the uniforms.
\<close>

record fragment =
  sample_albedo :: vec3
  sample_metallic :: real
  sample_roughness :: real
  sample_ao :: real
  sample_specular :: vec3
  sample_normal :: vec3
  vNormal :: vec3
  vWorldPos :: vec3
  uCameraPos :: vec3
  uLightDir :: vec3
  uLightColor :: vec3
  uLightIntensity :: real
  uAmbientColor :: vec3
  uAmbientIntensity :: real
  uShininess :: real
  uUseSpecular :: bool

text \<open>Local variables of \<^verbatim>\<open>main\<close> that the properties below speak about, and its output.\<close>

record shading =
  sh_F :: vec3
  sh_kS :: vec3
  sh_kD :: vec3
  sh_specular :: vec3
  sh_radiance :: vec3
  sh_NdotL :: real
  sh_Lo :: vec3
  sh_ambient :: vec3
  sh_fragColor :: "vec3 \<times> real"

definition fragment_main :: "fragment \<Rightarrow> shading" where
  "fragment_main f =
     (let albedo = sample_albedo f;
          metallic = sample_metallic f;
          roughness = sample_roughness f;
          ao = sample_ao f;
          specularColor = sample_specular f;
          N0 = normalize_vec (vNormal f);
          normalMap = vsub (vscale (sample_normal f) 2) (vec3_of 1);
          N = normalize_vec (vadd N0 normalMap);
          V = normalize_vec (vsub (uCameraPos f) (vWorldPos f));
          L = normalize_vec (vsub (vec3_of 0) (uLightDir f));
          H = normalize_vec (vadd V L);
          F0 = mix (vec3_of 0.04) albedo metallic;
          radiance = vscale (uLightColor f) (uLightIntensity f);
          NDF = DistributionGGX N H roughness;
          G = GeometrySmith N V L roughness;
          F = fresnelSchlick (max (dot H V) 0) F0;
          numerator = vscale F (NDF * G);
          denominator = 4 * max (dot N V) 0 * max (dot N L) 0 + 0.0001;
          specular = vdiv numerator denominator;
          kS = F;
          kD0 = vsub (vec3_of 1) kS;
          kD = vscale kD0 (1 - metallic);
          NdotL = max (dot N L) 0;
          spec = max (dot N H) 0 powr uShininess f;
          specularHighlight = vscale specularColor spec;
          Lo = vscale (vmul (vadd (vdiv (vmul kD albedo) PI) specular) radiance) NdotL;
          ambient = vscale (vmul (vscale (uAmbientColor f) (uAmbientIntensity f)) albedo) ao;
          color0 = (if uUseSpecular f then vadd (vadd ambient Lo) (vscale specularHighlight 0.15)
                    else vadd ambient Lo);
          color = vpow color0 (1.9 / 2.2)
      in \<lparr> sh_F = F, sh_kS = kS, sh_kD = kD, sh_specular = specular, sh_radiance = radiance,
           sh_NdotL = NdotL, sh_Lo = Lo, sh_ambient = ambient, sh_fragColor = (color, 1) \<rparr>)"

text \<open>A fragment of a fully metallic surface, for an example.\<close>

definition example_fragment :: fragment where
  "example_fragment =
     \<lparr> sample_albedo = (1, 1, 1), sample_metallic = 1, sample_roughness = 0.5, sample_ao = 1,
       sample_specular = (1, 1, 1), sample_normal = (0.5, 0.5, 1), vNormal = (0, 0, 1),
       vWorldPos = (0, 0, 0), uCameraPos = (0, 0, 50), uLightDir = (0, - 1, 0),
       uLightColor = (1, 0.95, 0.8), uLightIntensity = 3.2, uAmbientColor = (0.2, 0.3, 0.2),
       uAmbientIntensity = 0.05, uShininess = 32, uUseSpecular = False \<rparr>"

section \<open>The render loop (main application, render)\<close>

text \<open>
  The part of the WebGL context the frame acts on: the uniforms of the one program (by
  their GLSL names), the texture bound to each unit, the active unit, the bound
  buffers, the buffer each attribute reads, and a log of the draw calls. A draw is
  logged with the uniforms, textures and buffers in force when it is issued: what the
  shader invoked by that draw observes.
\<close>

datatype uniform_value =
    UInt int
  | UFloat jsnum
  | UVec3 jsnum jsnum jsnum
  | UMat "real list"

datatype buffer =
    positionBuffer | texCoordBuffer | normalBuffer | indexBuffer
  | plant_positionBuffer | plant_texcoordBuffer | plant_normalBuffer | plant_indexBuffer

record draw_call =
  dc_uniforms :: "string \<Rightarrow> uniform_value option"
  dc_textures :: "nat \<Rightarrow> texture option"
  dc_attributes :: "string \<Rightarrow> buffer option"
  dc_elements :: "buffer option"
  dc_count :: int
  dc_offset :: int

record gl_state =
  uniforms :: "string \<Rightarrow> uniform_value option"
  texture_units :: "nat \<Rightarrow> texture option"
  active_unit :: nat
  array_buffer :: "buffer option"
  element_buffer :: "buffer option"
  attributes :: "string \<Rightarrow> buffer option"
  draws :: "draw_call list"

text \<open>
  The WebGL calls of the frame, as state transformers. A uniform call with a null or
  undefined location (\<open>None\<close>) is ignored, as WebGL specifies.
\<close>

definition set_uniform :: "string option \<Rightarrow> uniform_value \<Rightarrow> gl_state \<Rightarrow> gl_state" where
  "set_uniform loc v s =
     (case loc of None \<Rightarrow> s | Some name \<Rightarrow> s\<lparr>uniforms := (uniforms s)(name \<mapsto> v)\<rparr>)"

definition uniform1i :: "string option \<Rightarrow> int \<Rightarrow> gl_state \<Rightarrow> gl_state" where
  "uniform1i loc x = set_uniform loc (UInt x)"

definition uniform1f :: "string option \<Rightarrow> jsnum \<Rightarrow> gl_state \<Rightarrow> gl_state" where
  "uniform1f loc x = set_uniform loc (UFloat x)"

definition uniform3f :: "string option \<Rightarrow> jsnum \<Rightarrow> jsnum \<Rightarrow> jsnum \<Rightarrow> gl_state \<Rightarrow> gl_state" where
  "uniform3f loc x y z = set_uniform loc (UVec3 x y z)"

definition uniformMatrix4fv :: "string option \<Rightarrow> real list \<Rightarrow> gl_state \<Rightarrow> gl_state" where
  "uniformMatrix4fv loc m = set_uniform loc (UMat m)"

definition activeTexture :: "nat \<Rightarrow> gl_state \<Rightarrow> gl_state" where
  "activeTexture unit s = s\<lparr>active_unit := unit\<rparr>"

definition bindTexture :: "texture option \<Rightarrow> gl_state \<Rightarrow> gl_state" where
  "bindTexture t s = s\<lparr>texture_units := (texture_units s)(active_unit s := t)\<rparr>"

definition bindArrayBuffer :: "buffer \<Rightarrow> gl_state \<Rightarrow> gl_state" where
  "bindArrayBuffer b s = s\<lparr>array_buffer := Some b\<rparr>"

definition bindElementBuffer :: "buffer \<Rightarrow> gl_state \<Rightarrow> gl_state" where
  "bindElementBuffer b s = s\<lparr>element_buffer := Some b\<rparr>"

definition vertexAttribPointer :: "string \<Rightarrow> gl_state \<Rightarrow> gl_state" where
  "vertexAttribPointer attr s = s\<lparr>attributes := (attributes s)(attr := array_buffer s)\<rparr>"

definition drawElements :: "int \<Rightarrow> int \<Rightarrow> gl_state \<Rightarrow> gl_state" where
  "drawElements count offset s =
     s\<lparr>draws := draws s @
        [\<lparr> dc_uniforms = uniforms s, dc_textures = texture_units s,
            dc_attributes = attributes s, dc_elements = element_buffer s,
            dc_count = count, dc_offset = offset \<rparr>]\<rparr>"

text \<open>A sequence of calls, in order.\<close>

definition do_all :: "(gl_state \<Rightarrow> gl_state) list \<Rightarrow> gl_state \<Rightarrow> gl_state" where
  "do_all cs s = fold (\<lambda>c. c) cs s"

text \<open>
  The calls that touch nothing of the state above: the viewport, the clear calls, the
  depth test, \<^verbatim>\<open>useProgram\<close> (there is one program) and \<^verbatim>\<open>enableVertexAttribArray\<close>.
\<close>

definition gl_other :: "string \<Rightarrow> gl_state \<Rightarrow> gl_state" where
  "gl_other call s = s"

text \<open>
  \<^verbatim>\<open>programInfo.uniformLocations\<close>, from the property name to the uniform it locates.
  A property \<^verbatim>\<open>getProgramInfo\<close> does not define (\<^verbatim>\<open>metallic\<close>, \<^verbatim>\<open>roughness\<close>) is
  undefined. Every uniform listed is used by the shader, so its location is not null.
\<close>

definition uniformLocations :: "string \<Rightarrow> string option" where
  "uniformLocations p =
     map_of
       [(''projection'', ''uProjection''), (''view'', ''uView''), (''world'', ''uWorld''),
        (''albedoMap'', ''uAlbedoMap''), (''normalMap'', ''uNormalMap''),
        (''metallicMap'', ''uMetallicMap''), (''roughnessMap'', ''uRoughnessMap''),
        (''aoMap'', ''uAOMap''), (''specularMap'', ''uSpecularMap''),
        (''shininess'', ''uShininess''), (''cameraPos'', ''uCameraPos''),
        (''lightDir'', ''uLightDir''), (''lightColor'', ''uLightColor''),
        (''lightIntensity'', ''uLightIntensity''), (''ambientColor'', ''uAmbientColor''),
        (''ambientIntensity'', ''uAmbientIntensity''), (''useSpecular'', ''uUseSpecular'')] p"

text \<open>The scene configuration \<^verbatim>\<open>CONFIG\<close>.\<close>

record config =
  fieldOfView :: real
  zNear :: real
  zFar :: real
  lightColor :: "jsnum \<times> jsnum \<times> jsnum"
  lightIntensity :: jsnum
  lightRotationSpeed :: real
  lightHeight :: real
  lightRadius :: real
  ambientColor :: "jsnum \<times> jsnum \<times> jsnum"
  ambientIntensity :: jsnum
  worldRotationSpeed :: real

definition CONFIG :: config where
  "CONFIG =
     \<lparr> fieldOfView = 60, zNear = 1, zFar = 200.0,
       lightColor = (Num 1.0, Num 0.95, Num 0.8), lightIntensity = Num 3.2,
       lightRotationSpeed = 0.0015, lightHeight = 5.0, lightRadius = 2.0,
       ambientColor = (Num 0.2, Num 0.3, Num 0.2), ambientIntensity = Num 0.05,
       worldRotationSpeed = 0.05 \<rparr>"

text \<open>
  What a frame takes from outside this model: the time, whether the canvas was
  resized, the matrices the external matrix library computed (flattened), and the
  camera. The scene textures are the handles \<^verbatim>\<open>loadSceneTextures\<close> created.
\<close>

record frame =
  time :: real
  resized :: bool
  projectionMatrix :: "real list"
  viewMatrix :: "real list"
  worldMatrix :: "real list"
  plantWorldMatrix :: "real list"
  camera_of :: camera

definition textures :: "(string \<times> texture) list" where
  "textures =
     [(''albedo'', Texture ''js/textures/sand-dunes1_albedo.png''),
      (''normal'', Texture ''js/textures/sand-dunes1_normal-dx.png''),
      (''metallic'', Texture ''js/textures/sand-dunes1_metallic.png''),
      (''roughness'', Texture ''js/textures/sand-dunes1_roughness.png''),
      (''ao'', Texture ''js/textures/sand-dunes1_ao.png'')]"

definition textureUnits :: "string \<Rightarrow> nat" where
  "textureUnits name =
     (if name = ''albedo'' then 0 else if name = ''normal'' then 1
      else if name = ''metallic'' then 2 else if name = ''roughness'' then 3 else 4)"

text \<open>The number of indices of the sphere: two triangles for each of 30 by 30 bands.\<close>

definition sphere_index_count :: int where
  "sphere_index_count = 30 * 30 * 6"

definition setupAttributes :: "gl_state \<Rightarrow> gl_state" where
  "setupAttributes =
     do_all
       [bindArrayBuffer positionBuffer,
        vertexAttribPointer ''aPosition'',
        gl_other ''enableVertexAttribArray'',
        bindArrayBuffer texCoordBuffer,
        vertexAttribPointer ''aTexCoord'',
        gl_other ''enableVertexAttribArray'',
        bindArrayBuffer normalBuffer,
        vertexAttribPointer ''aNormal'',
        gl_other ''enableVertexAttribArray'']"

text \<open>The light direction of \<^verbatim>\<open>updateUniforms\<close>, normalised by the matrix library.\<close>

definition light_direction :: "real \<Rightarrow> vec3" where
  "light_direction t =
     (let lightAngle = t * lightRotationSpeed CONFIG;
          x = lightRadius CONFIG * sin lightAngle;
          y = lightHeight CONFIG;
          z = lightRadius CONFIG * cos lightAngle
      in normalize_vec (- x, - y, - z))"

definition upload_vec3 :: "string option \<Rightarrow> jsnum \<times> jsnum \<times> jsnum \<Rightarrow> gl_state \<Rightarrow> gl_state" where
  "upload_vec3 loc v = (case v of (x, y, z) \<Rightarrow> uniform3f loc x y z)"

definition updateUniforms :: "frame \<Rightarrow> gl_state \<Rightarrow> gl_state" where
  "updateUniforms fr =
     do_all
       [uniformMatrix4fv (uniformLocations ''projection'') (projectionMatrix fr),
        uniformMatrix4fv (uniformLocations ''view'') (viewMatrix fr),
        uniformMatrix4fv (uniformLocations ''world'') (worldMatrix fr),
        uniform1f (uniformLocations ''metallic'') (Num 0.0),
        uniform1f (uniformLocations ''roughness'') (Num 0.5),
        (case getEye (camera_of fr) of (x, y, z) \<Rightarrow> uniform3f (uniformLocations ''cameraPos'') (Num x) (Num y) (Num z)),
        (case light_direction (time fr) of (x, y, z) \<Rightarrow> uniform3f (uniformLocations ''lightDir'') (Num x) (Num y) (Num z)),
        upload_vec3 (uniformLocations ''lightColor'') (lightColor CONFIG),
        uniform1f (uniformLocations ''lightIntensity'') (lightIntensity CONFIG),
        upload_vec3 (uniformLocations ''ambientColor'') (ambientColor CONFIG),
        uniform1f (uniformLocations ''ambientIntensity'') (ambientIntensity CONFIG)]"

definition bindTextures_entry :: "string \<times> texture \<Rightarrow> gl_state \<Rightarrow> gl_state" where
  "bindTextures_entry e =
     (case e of (name, tx) \<Rightarrow>
        do_all
          [activeTexture (textureUnits name),
           bindTexture (Some tx),
           uniform1i (uniformLocations (name @ ''Map'')) (int (textureUnits name))])"

definition bindTextures :: "gl_state \<Rightarrow> gl_state" where
  "bindTextures = fold bindTextures_entry textures"

text \<open>
  \<^verbatim>\<open>setupPlantMaterial\<close>. The specular map is \<^verbatim>\<open>map_Ks || map_Kd\<close>, and the shininess is
  \<^verbatim>\<open>shininess || 32.0\<close>.
\<close>

definition setupPlantMaterial :: "mesh \<Rightarrow> gl_state \<Rightarrow> gl_state" where
  "setupPlantMaterial m =
     do_all
       [activeTexture 0,
        bindTexture (map_Kd (mesh_material m)),
        uniform1i (uniformLocations ''albedoMap'') 0,
        activeTexture 1,
        bindTexture (map_Bump (mesh_material m)),
        uniform1i (uniformLocations ''normalMap'') 1,
        activeTexture 5,
        bindTexture (case map_Ks (mesh_material m) of
                       None \<Rightarrow> map_Kd (mesh_material m)
                     | Some t \<Rightarrow> Some t),
        uniform1i (uniformLocations ''specularMap'') 5,
        uniform1f (uniformLocations ''metallic'') (Num 0.0),
        uniform1f (uniformLocations ''roughness'') (Num 0.85),
        uniform1f (uniformLocations ''shininess'')
          (or_number (shininess (mesh_material m)) (Num 32.0)),
        uniform3f (uniformLocations ''lightColor'') (Num 0.4) (Num 0.5) (Num 0.3),
        uniform1f (uniformLocations ''lightIntensity'') (Num 2.2),
        uniform3f (uniformLocations ''ambientColor'') (Num 0.15) (Num 0.2) (Num 0.15),
        uniform1f (uniformLocations ''ambientIntensity'') (Num 0.05)]"

text \<open>
  The body of the loop of \<^verbatim>\<open>drawPlant\<close> over the meshes. \<^verbatim>\<open>mesh.material\<close> is the object
  \<^verbatim>\<open>createGeometryWithMaterials\<close> built, which is truthy, so the guard of
  \<^verbatim>\<open>setupPlantMaterial\<close> holds for every mesh.
\<close>

definition drawPlant_mesh :: "mesh \<Rightarrow> gl_state \<Rightarrow> gl_state" where
  "drawPlant_mesh m =
     do_all
       [setupPlantMaterial m,
        drawElements (mesh_indexCount m) (mesh_startIndex m * 2)]"

definition restore_lighting :: "gl_state \<Rightarrow> gl_state" where
  "restore_lighting =
     do_all
       [upload_vec3 (uniformLocations ''lightColor'') (lightColor CONFIG),
        uniform1f (uniformLocations ''lightIntensity'') (lightIntensity CONFIG),
        upload_vec3 (uniformLocations ''ambientColor'') (ambientColor CONFIG),
        uniform1f (uniformLocations ''ambientIntensity'') (ambientIntensity CONFIG)]"

definition drawPlant :: "frame \<Rightarrow> mesh list \<Rightarrow> gl_state \<Rightarrow> gl_state" where
  "drawPlant fr plant_meshes =
     do_all
       [uniform1i (uniformLocations ''useSpecular'') 1,
        uniformMatrix4fv (uniformLocations ''world'') (plantWorldMatrix fr),
        bindArrayBuffer plant_positionBuffer,
        vertexAttribPointer ''aPosition'',
        bindArrayBuffer plant_texcoordBuffer,
        vertexAttribPointer ''aTexCoord'',
        bindArrayBuffer plant_normalBuffer,
        vertexAttribPointer ''aNormal'',
        bindElementBuffer plant_indexBuffer,
        fold drawPlant_mesh plant_meshes,
        restore_lighting]"

text \<open>
  One call of \<^verbatim>\<open>render\<close>. \<^verbatim>\<open>plantModel\<close> is null (\<open>None\<close>) until the model has loaded,
  and then holds the meshes of \<^verbatim>\<open>createGeometryWithMaterials\<close>.
\<close>

definition render :: "frame \<Rightarrow> mesh list option \<Rightarrow> gl_state \<Rightarrow> gl_state" where
  "render fr plantModel =
     do_all
       [if resized fr then gl_other ''viewport'' else id,
        gl_other ''clearColor'',
        gl_other ''clearDepth'',
        gl_other ''enable'',
        gl_other ''depthFunc'',
        gl_other ''clear'',
        gl_other ''useProgram'',
        setupAttributes,
        updateUniforms fr,
        bindTextures,
        uniform1i (uniformLocations ''useSpecular'') 0,
        bindElementBuffer indexBuffer,
        drawElements sphere_index_count 0,
        case plantModel of None \<Rightarrow> id | Some plant_meshes \<Rightarrow> drawPlant fr plant_meshes]"

text \<open>The draws a frame issues: those it adds to the log.\<close>

definition frame_draws :: "frame \<Rightarrow> mesh list option \<Rightarrow> gl_state \<Rightarrow> draw_call list" where
  "frame_draws fr plantModel s = drop (length (draws s)) (draws (render fr plantModel s))"

text \<open>The lighting a draw observes, or a state holds: colour and intensity, light and ambient.\<close>

definition lighting_of :: "(string \<Rightarrow> uniform_value option) \<Rightarrow> uniform_value option list" where
  "lighting_of u = [u ''uLightColor'', u ''uLightIntensity'', u ''uAmbientColor'', u ''uAmbientIntensity'']"

definition scene_lighting :: "uniform_value option list" where
  "scene_lighting =
     [Some (UVec3 (Num 1.0) (Num 0.95) (Num 0.8)), Some (UFloat (Num 3.2)),
      Some (UVec3 (Num 0.2) (Num 0.3) (Num 0.2)), Some (UFloat (Num 0.05))]"

definition plant_lighting :: "uniform_value option list" where
  "plant_lighting =
     [Some (UVec3 (Num 0.4) (Num 0.5) (Num 0.3)), Some (UFloat (Num 2.2)),
      Some (UVec3 (Num 0.15) (Num 0.2) (Num 0.15)), Some (UFloat (Num 0.05))]"

text \<open>
  What a draw of a plant mesh observes: the specular toggle on and the plant lighting.
  What the draw of the sphere observes: the toggle off, the scene lighting, and the
  index buffer of the sphere.
\<close>

definition plant_draw :: "draw_call \<Rightarrow> bool" where
  "plant_draw d \<longleftrightarrow>
     dc_uniforms d ''uUseSpecular'' = Some (UInt 1) \<and>
     lighting_of (dc_uniforms d) = plant_lighting"

definition sphere_draw :: "draw_call \<Rightarrow> bool" where
  "sphere_draw d \<longleftrightarrow>
     dc_uniforms d ''uUseSpecular'' = Some (UInt 0) \<and>
     lighting_of (dc_uniforms d) = scene_lighting \<and>
     dc_elements d = Some indexBuffer"

text \<open>A context in which nothing is bound or set yet, and a frame, for examples.\<close>

definition gl_init :: gl_state where
  "gl_init =
     \<lparr> uniforms = Map.empty, texture_units = Map.empty, active_unit = 0,
       array_buffer = None, element_buffer = None, attributes = Map.empty, draws = [] \<rparr>"

definition example_frame :: frame where
  "example_frame =
     \<lparr> time = 16, resized = False, projectionMatrix = [], viewMatrix = [],
       worldMatrix = [], plantWorldMatrix = [], camera_of = Camera_constructor \<rparr>"

section \<open>Camera: the clamps hold in every reachable state\<close>

lemma Camera_constructor_bounds: "camera_bounds Camera_constructor"
  by (simp add: camera_bounds_def Camera_constructor_def)

lemma Camera_constructor_limits: "camera_limits Camera_constructor"
  by (simp add: camera_limits_def Camera_constructor_def)

lemma camera_step_limits: "camera_limits (camera_step c e) = camera_limits c"
  by (cases e) (simp_all add: camera_limits_def on_mousemove_def Let_def)

lemma camera_step_bounds:
  assumes "camera_limits c" and "camera_bounds c"
  shows "camera_bounds (camera_step c e)"
proof (cases e)
  case (MouseMove buttons movementX movementY)
  with assms show ?thesis
    by (auto simp add: camera_bounds_def camera_limits_def on_mousemove_def Let_def)
next
  case (PointerLockChange locked)
  with assms show ?thesis by (simp add: camera_bounds_def)
qed (use assms in simp_all)

lemma camera_foldl_bounds:
  "camera_limits c \<Longrightarrow> camera_bounds c \<Longrightarrow>
   camera_limits (foldl camera_step c evs) \<and> camera_bounds (foldl camera_step c evs)"
proof (induction evs arbitrary: c)
  case Nil
  then show ?case by simp
next
  case (Cons e evs)
  have "camera_limits (camera_step c e)"
    using Cons.prems(1) by (simp add: camera_step_limits)
  moreover have "camera_bounds (camera_step c e)"
    using Cons.prems by (rule camera_step_bounds)
  ultimately show ?case
    using Cons.IH [of "camera_step c e"] by simp
qed

text \<open>
  Claim C8. Starting from the constructed camera, after any sequence of handler events
  (rotation, zoom and pan deltas of any magnitude, pointer-lock changes, mouse-down and
  context-menu events) the pitch \<^verbatim>\<open>rotationX\<close> lies in [-89, 89] and \<^verbatim>\<open>distance\<close> lies
  in [MIN_DISTANCE, MAX_DISTANCE], which stay the configured 0 and 10000. The sequence
  is arbitrary, so the bounds hold after every single event of it.
\<close>

theorem camera_bounds_reachable:
  "- 89 \<le> rotationX (camera_run evs) \<and> rotationX (camera_run evs) \<le> 89 \<and>
   MIN_DISTANCE (camera_run evs) \<le> distance (camera_run evs) \<and>
   distance (camera_run evs) \<le> MAX_DISTANCE (camera_run evs) \<and>
   MIN_DISTANCE (camera_run evs) = 0 \<and> MAX_DISTANCE (camera_run evs) = 10000"
proof -
  have "camera_limits (camera_run evs) \<and> camera_bounds (camera_run evs)"
    unfolding camera_run_def
    using Camera_constructor_limits Camera_constructor_bounds by (rule camera_foldl_bounds)
  then show ?thesis
    by (simp add: camera_bounds_def camera_limits_def)
qed

section \<open>OBJ parser: evaluation rules and frame lemmas\<close>

declare triangulate.simps [simp del]
declare decimal.simps [simp del]

text \<open>The loop of the triangulation, one step at a time.\<close>

lemma triangulate_step:
  "int i < int (length vs) - 1 \<Longrightarrow>
   triangulate i vs st =
     triangulate (i + 1) vs (push_triangle (vs ! 0) (vs ! i) (vs ! (i + 1)) st)"
  by (subst triangulate.simps) simp

lemma triangulate_stop: "\<not> int i < int (length vs) - 1 \<Longrightarrow> triangulate i vs st = st"
  by (subst triangulate.simps) simp

text \<open>The definitions that evaluate the parser on a concrete document.\<close>

lemmas js_eval =
  newline_def trim_def is_ws_def startsWith_def split_ws_def nth_opt_def
  parseInt_def parseFloat_def parseFloat_opt_def is_digit_def is_radix_digit_def
  digit_value_def digits_value_def char_code_def exponent_part_def pow10_def
  number_string_def digit_char_def or_obj_def or_number_def jsub_def Let_def

lemmas obj_eval =
  parseOBJ_def parseOBJ_state_def parseOBJ_lines_def parseOBJ_line_def parse_corner_def
  obj_init_def close_geometry_def startGeometry_def push_triangle_def addVertex_def
  resolve_index_def vertex_key_def string_of_idx_def js_index_def component_def
  position_record_def texcoord_record_def normal_record_def
  triangulate_step triangulate_stop decimal.simps

lemmas doc_eval =
  face_corner_counts_def face_corner_count_def line_words_def declared_record_def
  declared_positions_def declared_texcoords_def declared_normals_def

lemma addVertex_frame:
  "indices (snd (addVertex a b c st)) = indices st"
  "positions (snd (addVertex a b c st)) = positions st"
  "texcoords (snd (addVertex a b c st)) = texcoords st"
  "normals (snd (addVertex a b c st)) = normals st"
  "geometry (snd (addVertex a b c st)) = geometry st"
  "geometries (snd (addVertex a b c st)) = geometries st"
  by (simp_all add: addVertex_def Let_def split: option.splits)

lemma push_triangle_frame:
  "positions (push_triangle v0 v1 v2 st) = positions st"
  "texcoords (push_triangle v0 v1 v2 st) = texcoords st"
  "normals (push_triangle v0 v1 v2 st) = normals st"
  "geometry (push_triangle v0 v1 v2 st) = geometry st"
  "geometries (push_triangle v0 v1 v2 st) = geometries st"
  by (simp_all add: push_triangle_def Let_def addVertex_frame)

lemma push_triangle_length:
  "length (indices (push_triangle v0 v1 v2 st)) = length (indices st) + 3"
  by (simp add: push_triangle_def Let_def addVertex_frame)

lemma triangulate_frame:
  "positions (triangulate i vs st) = positions st \<and>
   texcoords (triangulate i vs st) = texcoords st \<and>
   normals (triangulate i vs st) = normals st \<and>
   geometry (triangulate i vs st) = geometry st \<and>
   geometries (triangulate i vs st) = geometries st"
proof (induction i vs st rule: triangulate.induct)
  case (1 i vertices st)
  show ?case
  proof (cases "int i < int (length vertices) - 1")
    case True
    then show ?thesis
      using "1.IH" by (subst (1 2 3 4 5) triangulate.simps) (simp add: push_triangle_frame)
  next
    case False
    then show ?thesis by (subst (1 2 3 4 5) triangulate.simps) simp
  qed
qed

lemma triangulate_length:
  "length (indices (triangulate i vs st)) = length (indices st) + 3 * (length vs - 1 - i)"
proof (induction i vs st rule: triangulate.induct)
  case (1 i vertices st)
  show ?case
  proof (cases "int i < int (length vertices) - 1")
    case True
    then have "length vertices - 1 - i = Suc (length vertices - 1 - (i + 1))" by linarith
    with True show ?thesis
      using "1.IH" by (subst triangulate.simps) (simp add: push_triangle_length)
  next
    case False
    then have "length vertices - 1 - i = 0" by linarith
    with False show ?thesis by (subst triangulate.simps) simp
  qed
qed

lemma close_geometry_frame:
  "indices (close_geometry st) = indices st"
  "positions (close_geometry st) = positions st"
  "texcoords (close_geometry st) = texcoords st"
  "normals (close_geometry st) = normals st"
  by (simp_all add: close_geometry_def Let_def split: option.splits)

lemma startGeometry_frame:
  "indices (startGeometry m st) = indices st"
  "positions (startGeometry m st) = positions st"
  "texcoords (startGeometry m st) = texcoords st"
  "normals (startGeometry m st) = normals st"
  by (simp_all add: startGeometry_def Let_def close_geometry_frame)

text \<open>The loop body in terms of the words of the line.\<close>

lemma parseOBJ_line_words:
  "parseOBJ_line st raw =
     (case line_words raw of
        [] \<Rightarrow> st
      | command # args \<Rightarrow>
          if command = ''v'' then
            st\<lparr>positions := positions st @ [position_record args]\<rparr>
          else if command = ''vt'' then
            st\<lparr>texcoords := texcoords st @ [texcoord_record args]\<rparr>
          else if command = ''vn'' then
            st\<lparr>normals := normals st @ [normal_record args]\<rparr>
          else if command = ''usemtl'' then
            startGeometry (nth_opt args 0) st
          else if command = ''f'' then
            (let st1 = (if geometry st = None then startGeometry (Some ''default'') st
                        else st)
             in triangulate 1 (map parse_corner args) st1)
          else st)"
  by (simp add: parseOBJ_line_def line_words_def Let_def)

lemma parseOBJ_line_length:
  "length (indices (parseOBJ_line st raw)) =
     length (indices st) + 3 * (case face_corner_count raw of None \<Rightarrow> 0 | Some k \<Rightarrow> k - 2)"
  by (simp add: parseOBJ_line_words face_corner_count_def Let_def triangulate_length
      startGeometry_frame numeral_2_eq_2 split: list.splits)

lemma parseOBJ_lines_length:
  "length (indices (parseOBJ_lines st ls)) =
     length (indices st) + 3 * (\<Sum>k\<leftarrow>List.map_filter face_corner_count ls. k - 2)"
proof (induction ls arbitrary: st)
  case Nil
  then show ?case by (simp add: parseOBJ_lines_def)
next
  case (Cons l ls)
  have "parseOBJ_lines st (l # ls) = parseOBJ_lines (parseOBJ_line st l) ls"
    by (simp add: parseOBJ_lines_def)
  then show ?case
    by (simp add: Cons.IH parseOBJ_line_length split: option.splits)
qed

lemma sum_list_minus2:
  "\<forall>k\<in>set ks. 3 \<le> k \<Longrightarrow> int (\<Sum>k\<leftarrow>ks. k - 2) = (\<Sum>k\<leftarrow>ks. int k - 2)"
  by (induction ks) auto

text \<open>
  The parser on a document of one triangle: three vertices, the indices 0, 1, 2, and
  one section of length 3 under the material name "default". Texture coordinates and
  normals, which the face does not give, take the fallback values.
\<close>

lemma parseOBJ_one_triangle:
  "parseOBJ (unlines [''v 0 0 0'', ''v 1 0 0'', ''v 0 1 0'', ''f 1 2 3'', []]) =
     \<lparr> out_positions = [Num 0, Num 0, Num 0, Num 1, Num 0, Num 0, Num 0, Num 1, Num 0],
       out_texcoords = [Num 0, Num 0, Num 0, Num 0, Num 0, Num 0],
       out_normals = [Num 0, Num 1, Num 0, Num 0, Num 1, Num 0, Num 0, Num 1, Num 0],
       out_indices = [0, 1, 2],
       out_geometries = [\<lparr>material = Some ''default'', startIndex = 0, indexCount = 3\<rparr>] \<rparr>"
  by (simp add: obj_eval js_eval cong: let_weak_cong)

section \<open>OBJ parser: the invariant of the sections\<close>

lemma spans_from_snoc:
  "spans_from s (gs @ [g]) e \<longleftrightarrow>
     spans_from s gs (startIndex g) \<and> 0 < indexCount g \<and> e = startIndex g + indexCount g"
  by (induction gs arbitrary: s) auto

lemma close_geometry_spans:
  "sections_inv st \<Longrightarrow>
   spans_from 0 (geometries (close_geometry st)) (int (length (indices st)))"
  by (auto simp add: sections_inv_def close_geometry_def Let_def spans_from_snoc
      split: option.splits)

lemma startGeometry_inv: "sections_inv st \<Longrightarrow> sections_inv (startGeometry m st)"
  using close_geometry_spans [of st]
  by (simp add: sections_inv_def startGeometry_def Let_def close_geometry_frame)

lemma startGeometry_open: "\<exists>g. geometry (startGeometry m st) = Some g"
  by (simp add: startGeometry_def Let_def)

lemma triangulate_inv:
  assumes "sections_inv st" and "geometry st \<noteq> None"
  shows "sections_inv (triangulate i vs st)"
proof -
  have "length (indices st) \<le> length (indices (triangulate i vs st))"
    by (simp add: triangulate_length)
  with assms show ?thesis
    by (auto simp add: sections_inv_def triangulate_frame split: option.splits)
qed

lemma parseOBJ_line_inv: "sections_inv st \<Longrightarrow> sections_inv (parseOBJ_line st raw)"
proof -
  assume inv: "sections_inv st"
  have v: "\<And>f. sections_inv (st\<lparr>positions := f\<rparr>)"
    and vt: "\<And>f. sections_inv (st\<lparr>texcoords := f\<rparr>)"
    and vn: "\<And>f. sections_inv (st\<lparr>normals := f\<rparr>)"
    using inv by (simp_all add: sections_inv_def split: option.splits)
  have f1: "\<And>vs. sections_inv
      (triangulate (Suc 0) vs (startGeometry (Some ''default'') st))"
    using startGeometry_open [of "Some ''default''" st]
    by (auto intro!: triangulate_inv startGeometry_inv inv)
  have f2: "\<And>vs y. geometry st = Some y \<Longrightarrow> sections_inv (triangulate (Suc 0) vs st)"
    by (auto intro!: triangulate_inv inv)
  show ?thesis
    by (auto simp add: parseOBJ_line_words Let_def v vt vn f1 f2 startGeometry_inv inv
        split: list.splits)
qed

lemma parseOBJ_lines_inv: "sections_inv st \<Longrightarrow> sections_inv (parseOBJ_lines st ls)"
  unfolding parseOBJ_lines_def
  by (induction ls arbitrary: st) (simp_all add: parseOBJ_line_inv)

lemma obj_init_inv: "sections_inv obj_init"
  by (simp add: sections_inv_def obj_init_def)

section \<open>OBJ parser: the sections partition the indices\<close>

text \<open>
  Claim C3. For every mesh document, the sections the parser returns chain from 0 to
  the number of indices: the first starts at 0, each starts where the one before ended,
  each has a positive length (none of length zero is returned), and the last ends at
  the index count. They are in the order they were closed, which is document order.
\<close>

theorem spans_partition:
  "spans_from 0 (out_geometries (parseOBJ doc)) (int (length (out_indices (parseOBJ doc))))"
proof -
  have "sections_inv (parseOBJ_lines obj_init (split_on newline doc))"
    using obj_init_inv by (rule parseOBJ_lines_inv)
  then show ?thesis
    by (simp add: parseOBJ_def parseOBJ_state_def Let_def close_geometry_frame
        close_geometry_spans)
qed

text \<open>
  What the chain means for the index intervals: they cover the interval from the start
  to the end, and an earlier section ends before a later one starts.
\<close>

lemma spans_from_le: "spans_from s gs e \<Longrightarrow> s \<le> e"
proof (induction gs arbitrary: s)
  case Nil
  then show ?case by simp
next
  case (Cons g gs)
  then have "s + indexCount g \<le> e" and "0 < indexCount g" by auto
  then show ?case by simp
qed

lemma spans_from_union: "spans_from s gs e \<Longrightarrow> (\<Union>g\<in>set gs. span_set g) = {s ..< e}"
proof (induction gs arbitrary: s)
  case Nil
  then show ?case by simp
next
  case (Cons g gs)
  then have "s + indexCount g \<le> e" and "0 < indexCount g" and "startIndex g = s"
    using spans_from_le [of "s + indexCount g" gs e] by auto
  moreover have "(\<Union>g\<in>set gs. span_set g) = {s + indexCount g ..< e}"
    using Cons by auto
  ultimately show ?case
    by (auto simp add: span_set_def)
qed

lemma spans_from_disjoint:
  "spans_from s gs e \<Longrightarrow> i < j \<Longrightarrow> j < length gs \<Longrightarrow>
   startIndex (gs ! i) + indexCount (gs ! i) \<le> startIndex (gs ! j)"
proof (induction gs arbitrary: s i j)
  case Nil
  then show ?case by simp
next
  case (Cons g gs)
  obtain j' where j: "j = Suc j'" using Cons.prems(2) by (cases j) auto
  have chain: "spans_from (s + indexCount g) gs e" and g: "startIndex g = s"
    using Cons.prems(1) by auto
  show ?case
  proof (cases i)
    case 0
    have "\<And>k. k < length gs \<Longrightarrow> s + indexCount g \<le> startIndex (gs ! k)"
    proof -
      fix k assume "k < length gs"
      with chain show "s + indexCount g \<le> startIndex (gs ! k)"
      proof (induction gs arbitrary: s k g)
        case Nil
        then show ?case by simp
      next
        case (Cons h hs)
        show ?case
        proof (cases k)
          case 0
          with Cons.prems show ?thesis by auto
        next
          case (Suc k')
          have "startIndex h + indexCount h \<le> startIndex (hs ! k')"
            using Cons.IH [of "startIndex h" h k'] Cons.prems Suc by auto
          with Cons.prems Suc show ?thesis by auto
        qed
      qed
    qed
    with 0 j g Cons.prems(3) show ?thesis by auto
  next
    case (Suc i')
    with j Cons.prems Cons.IH [OF chain, of i' j'] show ?thesis by auto
  qed
qed

section \<open>OBJ parser: relative (negative) indices\<close>

text \<open>The three source arrays only grow, by the records the lines declare, in order.\<close>

lemma parseOBJ_line_positions:
  "positions (parseOBJ_line st raw) =
     positions st @ (case declared_record ''v'' raw of None \<Rightarrow> [] | Some args \<Rightarrow> [position_record args])"
  by (simp add: parseOBJ_line_words declared_record_def Let_def startGeometry_frame
      triangulate_frame split: list.splits)

lemma parseOBJ_line_texcoords:
  "texcoords (parseOBJ_line st raw) =
     texcoords st @ (case declared_record ''vt'' raw of None \<Rightarrow> [] | Some args \<Rightarrow> [texcoord_record args])"
  by (simp add: parseOBJ_line_words declared_record_def Let_def startGeometry_frame
      triangulate_frame split: list.splits)

lemma parseOBJ_line_normals:
  "normals (parseOBJ_line st raw) =
     normals st @ (case declared_record ''vn'' raw of None \<Rightarrow> [] | Some args \<Rightarrow> [normal_record args])"
  by (simp add: parseOBJ_line_words declared_record_def Let_def startGeometry_frame
      triangulate_frame split: list.splits)

lemma parseOBJ_lines_Cons:
  "parseOBJ_lines st (l # ls) = parseOBJ_lines (parseOBJ_line st l) ls"
  by (simp add: parseOBJ_lines_def)

lemma parseOBJ_lines_positions:
  "positions (parseOBJ_lines st ls) = positions st @ declared_positions ls"
proof (induction ls arbitrary: st)
  case Nil
  then show ?case by (simp add: parseOBJ_lines_def declared_positions_def)
next
  case (Cons l ls)
  then show ?case
    by (simp add: parseOBJ_lines_Cons parseOBJ_line_positions declared_positions_def
        split: option.splits)
qed

lemma parseOBJ_lines_texcoords:
  "texcoords (parseOBJ_lines st ls) = texcoords st @ declared_texcoords ls"
proof (induction ls arbitrary: st)
  case Nil
  then show ?case by (simp add: parseOBJ_lines_def declared_texcoords_def)
next
  case (Cons l ls)
  then show ?case
    by (simp add: parseOBJ_lines_Cons parseOBJ_line_texcoords declared_texcoords_def
        split: option.splits)
qed

lemma parseOBJ_lines_normals:
  "normals (parseOBJ_lines st ls) = normals st @ declared_normals ls"
proof (induction ls arbitrary: st)
  case Nil
  then show ?case by (simp add: parseOBJ_lines_def declared_normals_def)
next
  case (Cons l ls)
  then show ?case
    by (simp add: parseOBJ_lines_Cons parseOBJ_line_normals declared_normals_def
        split: option.splits)
qed

text \<open>Relative addressing on an array that holds a sentinel and then the records.\<close>

lemma resolve_negative:
  assumes "1 \<le> k" and "k \<le> length ds"
  shows "resolve_index (length (s # ds)) (Some (- int k)) = Idx (int (length ds) + 1 - int k) \<and>
         js_index (s # ds) (resolve_index (length (s # ds)) (Some (- int k))) =
           Some (rev ds ! (k - 1))"
proof -
  have n: "nat (1 + int (length ds) - int k) = Suc (length ds - k)"
    using assms by linarith
  have "rev ds ! (k - 1) = ds ! (length ds - Suc (k - 1))"
    using assms by (intro rev_nth) linarith
  also have "length ds - Suc (k - 1) = length ds - k"
    using assms by linarith
  finally show ?thesis
    using assms by (simp add: resolve_index_def js_index_def n)
qed

text \<open>
  Claim C6. At any point of a mesh document (after the lines \<open>ls\<close>), a face-corner
  reference of -k, for k from 1 up to the number of records declared so far, resolves
  to the k-th most recently declared record of its array: for positions the resolved
  index is the number of declared positions plus 1 minus k, and the array holds there
  the k-th record from the end; likewise for texture coordinates and normals. For
  k = 1 this is the most recently declared record. When the reference makes a new
  vertex, that position is the one copied to the output positions.
\<close>

theorem negative_index_resolution:
  assumes "st = parseOBJ_lines obj_init ls" and "1 \<le> k"
  shows "(k \<le> length (declared_positions ls) \<longrightarrow>
            resolve_index (length (positions st)) (Some (- int k)) =
              Idx (int (length (declared_positions ls)) + 1 - int k) \<and>
            js_index (positions st) (resolve_index (length (positions st)) (Some (- int k))) =
              Some (rev (declared_positions ls) ! (k - 1))) \<and>
         (k \<le> length (declared_texcoords ls) \<longrightarrow>
            js_index (texcoords st) (resolve_index (length (texcoords st)) (Some (- int k))) =
              Some (rev (declared_texcoords ls) ! (k - 1))) \<and>
         (k \<le> length (declared_normals ls) \<longrightarrow>
            js_index (normals st) (resolve_index (length (normals st)) (Some (- int k))) =
              Some (rev (declared_normals ls) ! (k - 1))) \<and>
         (k \<le> length (declared_positions ls) \<longrightarrow>
            vertexMap st (vertex_key (resolve_index (length (positions st)) (Some (- int k)))
              (resolve_index (length (texcoords st)) ti)
              (resolve_index (length (normals st)) ni)) = None \<longrightarrow>
            finalPositions (snd (addVertex (Some (- int k)) ti ni st)) =
              finalPositions st @ rev (declared_positions ls) ! (k - 1))"
proof -
  have p: "positions st = [Num 0, Num 0, Num 0] # declared_positions ls"
    and t: "texcoords st = [Num 0, Num 0] # declared_texcoords ls"
    and n: "normals st = [Num 0, Num 0, Num 0] # declared_normals ls"
    by (simp_all add: assms(1) parseOBJ_lines_positions parseOBJ_lines_texcoords
        parseOBJ_lines_normals obj_init_def)
  show ?thesis
  proof (intro conjI impI)
    assume "k \<le> length (declared_positions ls)"
    from resolve_negative [OF assms(2) this, of "[Num 0, Num 0, Num 0]"]
    show "resolve_index (length (positions st)) (Some (- int k)) =
              Idx (int (length (declared_positions ls)) + 1 - int k)"
      and "js_index (positions st) (resolve_index (length (positions st)) (Some (- int k))) =
              Some (rev (declared_positions ls) ! (k - 1))"
      unfolding p by blast+
  next
    assume "k \<le> length (declared_texcoords ls)"
    from resolve_negative [OF assms(2) this, of "[Num 0, Num 0]"]
    show "js_index (texcoords st) (resolve_index (length (texcoords st)) (Some (- int k))) =
              Some (rev (declared_texcoords ls) ! (k - 1))"
      unfolding t by blast
  next
    assume "k \<le> length (declared_normals ls)"
    from resolve_negative [OF assms(2) this, of "[Num 0, Num 0, Num 0]"]
    show "js_index (normals st) (resolve_index (length (normals st)) (Some (- int k))) =
              Some (rev (declared_normals ls) ! (k - 1))"
      unfolding n by blast
  next
    assume "k \<le> length (declared_positions ls)"
    from resolve_negative [OF assms(2) this, of "[Num 0, Num 0, Num 0]"]
    have "js_index (positions st) (resolve_index (length (positions st)) (Some (- int k))) =
              Some (rev (declared_positions ls) ! (k - 1))"
      unfolding p by blast
    moreover assume "vertexMap st (vertex_key (resolve_index (length (positions st)) (Some (- int k)))
              (resolve_index (length (texcoords st)) ti)
              (resolve_index (length (normals st)) ni)) = None"
    ultimately show "finalPositions (snd (addVertex (Some (- int k)) ti ni st)) =
              finalPositions st @ rev (declared_positions ls) ! (k - 1)"
      by (simp add: addVertex_def Let_def or_obj_def)
  qed
qed

theorem negative_index_resolution_witness:
  "js_index (positions (parseOBJ_lines obj_init [''v 1 2 3'', ''vt 0.5 0.25'', ''v 4 5 6'']))
     (resolve_index (length (positions (parseOBJ_lines obj_init
        [''v 1 2 3'', ''vt 0.5 0.25'', ''v 4 5 6'']))) (Some (- 1))) =
   Some [Num 4, Num 5, Num 6] \<and>
   js_index (texcoords (parseOBJ_lines obj_init [''v 1 2 3'', ''vt 0.5 0.25'', ''v 4 5 6'']))
     (resolve_index (length (texcoords (parseOBJ_lines obj_init
        [''v 1 2 3'', ''vt 0.5 0.25'', ''v 4 5 6'']))) (Some (- 1))) =
   Some [Num 0.5, Num 0.75]"
proof -
  let ?ls = "[''v 1 2 3'', ''vt 0.5 0.25'', ''v 4 5 6'']"
  have d: "declared_positions ?ls = [[Num 1, Num 2, Num 3], [Num 4, Num 5, Num 6]]"
    by (simp add: doc_eval js_eval position_record_def)
  have t: "declared_texcoords ?ls = [[Num 0.5, Num 0.75]]"
    by (simp add: doc_eval js_eval texcoord_record_def)
  have k: "(1::nat) \<le> 1" by simp
  note th = negative_index_resolution [OF refl k, of ?ls]
  have lp: "1 \<le> length (declared_positions ?ls)" by (simp add: d)
  have lt: "1 \<le> length (declared_texcoords ?ls)" by (simp add: t)
  have "js_index (positions (parseOBJ_lines obj_init ?ls))
     (resolve_index (length (positions (parseOBJ_lines obj_init ?ls))) (Some (- int 1))) =
     Some (rev (declared_positions ?ls) ! (1 - 1))"
    using th lp by blast
  moreover have "js_index (texcoords (parseOBJ_lines obj_init ?ls))
     (resolve_index (length (texcoords (parseOBJ_lines obj_init ?ls))) (Some (- int 1))) =
     Some (rev (declared_texcoords ?ls) ! (1 - 1))"
    using th lt by blast
  ultimately show ?thesis
    by (simp add: d t)
qed

section \<open>OBJ parser: the key of a vertex determines its resolved triple\<close>

text \<open>
  A number prints as decimal digits, with a minus sign when negative, and NaN prints as
  three letters: no print holds a slash, and two prints are equal only for equal values.
\<close>

lemma digit_char_code: "d < 10 \<Longrightarrow> char_code (digit_char d) = 48 + d"
  by (simp add: char_code_def digit_char_def)

lemma decimal_unfold:
  "decimal n = (if 10 \<le> n then decimal (n div 10) else []) @ [digit_char (n mod 10)]"
  by (rule decimal.simps)

lemma decimal_chars: "c \<in> set (decimal n) \<Longrightarrow> 48 \<le> char_code c \<and> char_code c \<le> 57"
proof (induction n rule: decimal.induct)
  case (1 n)
  have "c \<in> set (if 10 \<le> n then decimal (n div 10) else []) \<or> c = digit_char (n mod 10)"
    using "1.prems" decimal_unfold [of n] by auto
  then show ?case
  proof
    assume "c \<in> set (if 10 \<le> n then decimal (n div 10) else [])"
    then show ?thesis using "1.IH" by (auto split: if_splits)
  next
    assume "c = digit_char (n mod 10)"
    then show ?thesis by (simp add: digit_char_code)
  qed
qed

lemma digit_value_digit_char: "d < 10 \<Longrightarrow> digit_value (digit_char d) = Some d"
  by (simp add: digit_value_def digit_char_code)

lemma digits_value_snoc:
  "digits_value r (ds @ [c]) =
     digits_value r ds * r + (case digit_value c of None \<Rightarrow> 0 | Some d \<Rightarrow> d)"
  by (simp add: digits_value_def)

lemma digits_value_decimal: "digits_value 10 (decimal n) = n"
proof (induction n rule: decimal.induct)
  case (1 n)
  show ?case
  proof (cases "10 \<le> n")
    case True
    have "decimal n = decimal (n div 10) @ [digit_char (n mod 10)]"
      using True decimal_unfold [of n] by simp
    then have "digits_value 10 (decimal n) = digits_value 10 (decimal (n div 10)) * 10 + n mod 10"
      by (simp add: digits_value_snoc digit_value_digit_char)
    with True "1.IH" show ?thesis by simp
  next
    case False
    have "decimal n = [digit_char (n mod 10)]"
      using False decimal_unfold [of n] by simp
    then have "digits_value 10 (decimal n) = n mod 10"
      by (simp add: digits_value_def digit_value_digit_char)
    with False show ?thesis by simp
  qed
qed

lemma decimal_inj: "decimal m = decimal n \<Longrightarrow> m = n"
  by (metis digits_value_decimal)

lemma minus_not_decimal: "CHR ''-'' # s \<noteq> decimal n"
proof
  assume "CHR ''-'' # s = decimal n"
  then have "CHR ''-'' \<in> set (decimal n)" by (metis list.set_intros(1))
  from decimal_chars [OF this] show False by (simp add: char_code_def)
qed

lemma number_string_inj: "number_string i = number_string j \<Longrightarrow> i = j"
proof -
  assume eq: "number_string i = number_string j"
  consider "0 \<le> i" "0 \<le> j" | "0 \<le> i" "j < 0" | "i < 0" "0 \<le> j" | "i < 0" "j < 0"
    by linarith
  then show ?thesis
  proof cases
    case 1
    with eq have "nat i = nat j" by (simp add: number_string_def decimal_inj)
    with 1 show ?thesis by simp
  next
    case 2
    with eq show ?thesis using minus_not_decimal [of "decimal (nat (- j))" "nat i"]
      by (simp add: number_string_def)
  next
    case 3
    with eq show ?thesis using minus_not_decimal [of "decimal (nat (- i))" "nat j"]
      by (simp add: number_string_def)
  next
    case 4
    with eq have "nat (- i) = nat (- j)" by (simp add: number_string_def decimal_inj)
    with 4 show ?thesis by simp
  qed
qed

lemma number_string_chars:
  "c \<in> set (number_string i) \<Longrightarrow> c = CHR ''-'' \<or> (48 \<le> char_code c \<and> char_code c \<le> 57)"
  by (auto simp add: number_string_def dest: decimal_chars split: if_splits)

lemma string_of_idx_no_slash: "CHR ''/'' \<notin> set (string_of_idx x)"
proof (cases x)
  case (Idx i)
  show ?thesis
  proof
    assume "CHR ''/'' \<in> set (string_of_idx x)"
    then have "CHR ''/'' \<in> set (number_string i)" by (simp add: Idx string_of_idx_def)
    from number_string_chars [OF this] show False by (simp add: char_code_def)
  qed
next
  case IdxNaN
  then show ?thesis by (simp add: string_of_idx_def)
qed

lemma NaN_not_number: "''NaN'' \<noteq> number_string i"
proof
  assume "''NaN'' = number_string i"
  then have "CHR ''N'' \<in> set (number_string i)" by (metis list.set_intros(1))
  from number_string_chars [OF this] show False by (simp add: char_code_def)
qed

lemma string_of_idx_inj: "string_of_idx x = string_of_idx y \<Longrightarrow> x = y"
proof (cases x; cases y)
  fix i j assume "string_of_idx x = string_of_idx y" "x = Idx i" "y = Idx j"
  then show "x = y" by (simp add: string_of_idx_def number_string_inj)
next
  fix i assume "string_of_idx x = string_of_idx y" "x = Idx i" "y = IdxNaN"
  then show "x = y" using NaN_not_number [of i] by (simp add: string_of_idx_def)
next
  fix j assume "string_of_idx x = string_of_idx y" "x = IdxNaN" "y = Idx j"
  then show "x = y" using NaN_not_number [of j] by (simp add: string_of_idx_def)
next
  assume "x = IdxNaN" "y = IdxNaN"
  then show "x = y" by simp
qed

lemma split_unique:
  "c \<notin> set xs \<Longrightarrow> c \<notin> set xs' \<Longrightarrow> xs @ c # ys = xs' @ c # ys' \<Longrightarrow> xs = xs' \<and> ys = ys'"
proof (induction xs arbitrary: xs')
  case Nil
  then show ?case by (cases xs') auto
next
  case (Cons x xs)
  then show ?case by (cases xs') auto
qed

lemma vertex_key_inj:
  assumes "vertex_key p t n = vertex_key p' t' n'"
  shows "p = p' \<and> t = t' \<and> n = n'"
proof -
  have eq: "string_of_idx p @ CHR ''/'' # (string_of_idx t @ CHR ''/'' # string_of_idx n) =
            string_of_idx p' @ CHR ''/'' # (string_of_idx t' @ CHR ''/'' # string_of_idx n')"
    using assms by (simp add: vertex_key_def)
  from split_unique [OF string_of_idx_no_slash string_of_idx_no_slash eq]
  have p: "string_of_idx p = string_of_idx p'"
    and rest: "string_of_idx t @ CHR ''/'' # string_of_idx n =
               string_of_idx t' @ CHR ''/'' # string_of_idx n'"
    by simp_all
  from split_unique [OF string_of_idx_no_slash string_of_idx_no_slash rest]
  have "string_of_idx t = string_of_idx t'" and "string_of_idx n = string_of_idx n'"
    by simp_all
  with p show ?thesis by (simp add: string_of_idx_inj)
qed

lemma call_key_inj: "call_key c = call_key d \<Longrightarrow> call_resolved c = call_resolved d"
  by (cases "call_resolved c"; cases "call_resolved d")
     (auto simp add: call_key_def dest: vertex_key_inj)

section \<open>OBJ parser: the vertex map is injective on the resolved triples\<close>

lemma addVertex_vertex_inv:
  assumes "vertex_inv st"
  shows "vertex_inv (snd (addVertex a b c st))"
proof -
  define p where "p = resolve_index (length (positions st)) a"
  define t where "t = resolve_index (length (texcoords st)) b"
  define n where "n = resolve_index (length (normals st)) c"
  define key where "key = vertex_key p t n"
  have inv1: "\<And>c. c \<in> set (calls st) \<Longrightarrow> vertexMap st (call_key c) = Some (call_index c)"
    and inv2: "\<And>k i. vertexMap st k = Some i \<Longrightarrow> i < vertexCount st"
    and inv3: "\<And>k k' i. vertexMap st k = Some i \<Longrightarrow> vertexMap st k' = Some i \<Longrightarrow> k = k'"
    using assms by (auto simp add: vertex_inv_def)
  show ?thesis
  proof (cases "vertexMap st key")
    case (Some index)
    then have st': "snd (addVertex a b c st) = st\<lparr>calls := calls st @ [((a, b, c), (p, t, n), index)]\<rparr>"
      by (simp add: addVertex_def Let_def p_def t_def n_def key_def)
    have "call_key ((a, b, c), (p, t, n), index) = key"
      by (simp add: call_key_def call_resolved_def key_def)
    then show ?thesis
      unfolding st' vertex_inv_def using Some inv1 inv2 inv3
      by (auto simp add: call_index_def)
  next
    case None
    then have vm: "vertexMap (snd (addVertex a b c st)) = (vertexMap st)(key \<mapsto> vertexCount st)"
      and vc: "vertexCount (snd (addVertex a b c st)) = vertexCount st + 1"
      and cl: "calls (snd (addVertex a b c st)) = calls st @ [((a, b, c), (p, t, n), vertexCount st)]"
      by (simp_all add: addVertex_def Let_def p_def t_def n_def key_def)
    have k: "call_key ((a, b, c), (p, t, n), vertexCount st) = key"
      by (simp add: call_key_def call_resolved_def key_def)
    have old: "\<And>c. c \<in> set (calls st) \<Longrightarrow> call_key c \<noteq> key"
      using inv1 None by fastforce
    have fresh: "\<And>k. vertexMap st k \<noteq> Some (vertexCount st)"
      using inv2 by fastforce
    show ?thesis
      unfolding vertex_inv_def vm vc cl
    proof (intro conjI ballI allI impI)
      fix d assume "d \<in> set (calls st @ [((a, b, c), (p, t, n), vertexCount st)])"
      then consider "d \<in> set (calls st)" | "d = ((a, b, c), (p, t, n), vertexCount st)"
        by auto
      then show "((vertexMap st)(key \<mapsto> vertexCount st)) (call_key d) = Some (call_index d)"
      proof cases
        case 1
        then show ?thesis using inv1 [OF 1] old [OF 1] by simp
      next
        case 2
        then show ?thesis using k by (simp add: call_index_def)
      qed
    next
      fix k i assume "((vertexMap st)(key \<mapsto> vertexCount st)) k = Some i"
      then show "i < vertexCount st + 1"
        using inv2 [of k i] by (auto split: if_splits)
    next
      fix k k' i
      assume "((vertexMap st)(key \<mapsto> vertexCount st)) k = Some i"
        and "((vertexMap st)(key \<mapsto> vertexCount st)) k' = Some i"
      then show "k = k'"
        using inv3 [of k i k'] fresh by (auto split: if_splits)
    qed
  qed
qed

lemma push_triangle_vertex_inv: "vertex_inv st \<Longrightarrow> vertex_inv (push_triangle v0 v1 v2 st)"
proof -
  assume "vertex_inv st"
  then have "vertex_inv (snd (addVertex (vert v2) (tex v2) (norm_i v2)
      (snd (addVertex (vert v1) (tex v1) (norm_i v1)
        (snd (addVertex (vert v0) (tex v0) (norm_i v0) st))))))"
    by (intro addVertex_vertex_inv)
  then show ?thesis
    by (simp add: push_triangle_def Let_def vertex_inv_def)
qed

lemma triangulate_vertex_inv: "vertex_inv st \<Longrightarrow> vertex_inv (triangulate i vs st)"
proof (induction i vs st rule: triangulate.induct)
  case (1 i vertices st)
  show ?case
  proof (cases "int i < int (length vertices) - 1")
    case True
    then show ?thesis
      using "1.IH" "1.prems" by (subst triangulate.simps) (simp add: push_triangle_vertex_inv)
  next
    case False
    then show ?thesis using "1.prems" by (subst triangulate.simps) simp
  qed
qed

lemma close_geometry_vertex:
  "vertexMap (close_geometry st) = vertexMap st"
  "vertexCount (close_geometry st) = vertexCount st"
  "calls (close_geometry st) = calls st"
  by (simp_all add: close_geometry_def Let_def split: option.splits)

lemma close_geometry_vertex_inv: "vertex_inv (close_geometry st) = vertex_inv st"
  by (simp add: vertex_inv_def close_geometry_vertex)

lemma startGeometry_vertex_inv: "vertex_inv (startGeometry m st) = vertex_inv st"
  by (simp add: vertex_inv_def startGeometry_def Let_def close_geometry_vertex)

lemma parseOBJ_line_vertex_inv: "vertex_inv st \<Longrightarrow> vertex_inv (parseOBJ_line st raw)"
proof -
  assume inv: "vertex_inv st"
  have v: "\<And>f. vertex_inv (st\<lparr>positions := f\<rparr>)"
    and vt: "\<And>f. vertex_inv (st\<lparr>texcoords := f\<rparr>)"
    and vn: "\<And>f. vertex_inv (st\<lparr>normals := f\<rparr>)"
    using inv by (simp_all add: vertex_inv_def)
  show ?thesis
    by (auto simp add: parseOBJ_line_words Let_def v vt vn inv startGeometry_vertex_inv
        intro!: triangulate_vertex_inv split: list.splits)
qed

lemma parseOBJ_lines_vertex_inv: "vertex_inv st \<Longrightarrow> vertex_inv (parseOBJ_lines st ls)"
  unfolding parseOBJ_lines_def
  by (induction ls arbitrary: st) (simp_all add: parseOBJ_line_vertex_inv)

lemma obj_init_vertex_inv: "vertex_inv obj_init"
  by (simp add: vertex_inv_def obj_init_def)

lemma parseOBJ_state_vertex_inv: "vertex_inv (parseOBJ_state doc)"
  by (simp add: parseOBJ_state_def close_geometry_vertex_inv parseOBJ_lines_vertex_inv
      obj_init_vertex_inv)

text \<open>
  The vertex map is keyed by the resolved triple: in every mesh document, two calls of
  \<^verbatim>\<open>addVertex\<close> return the same index exactly when the triples of indices they resolved
  their arguments to are the same. What a reference shares its vertex with is therefore
  decided by the resolution of its indices alone.
\<close>

lemma vertex_index_by_resolved:
  "\<forall>c\<in>set (calls (parseOBJ_state doc)). \<forall>d\<in>set (calls (parseOBJ_state doc)).
     (call_resolved c = call_resolved d) = (call_index c = call_index d)"
proof (intro ballI)
  fix c d
  assume c: "c \<in> set (calls (parseOBJ_state doc))" and d: "d \<in> set (calls (parseOBJ_state doc))"
  let ?st = "parseOBJ_state doc"
  have inv: "vertex_inv ?st" by (rule parseOBJ_state_vertex_inv)
  then have mc: "vertexMap ?st (call_key c) = Some (call_index c)"
    and md: "vertexMap ?st (call_key d) = Some (call_index d)"
    using c d by (auto simp add: vertex_inv_def)
  show "(call_resolved c = call_resolved d) = (call_index c = call_index d)"
  proof
    assume "call_resolved c = call_resolved d"
    then have "call_key c = call_key d" by (simp add: call_key_def)
    with mc md show "call_index c = call_index d" by simp
  next
    assume "call_index c = call_index d"
    with mc md inv have "call_key c = call_key d"
      unfolding vertex_inv_def by metis
    then show "call_resolved c = call_resolved d" by (rule call_key_inj)
  qed
qed

section \<open>OBJ parser: a zero index is resolved past the end of its array\<close>

text \<open>
  The arrays of declared records keep a record of zeros at index 0, for a reference
  that gives no index. The test \<^verbatim>\<open>i > 0 ? i : a.length + i\<close> does not send a zero index
  there: zero is not greater than zero, so it resolves to the length of the array, the
  index the next declared record will take.
\<close>

lemma resolve_index_zero: "resolve_index len (Some 0) = Idx (int len)"
  by (simp add: resolve_index_def)

lemma resolve_index_positive: "0 < k \<Longrightarrow> resolve_index len (Some k) = Idx k"
  by (simp add: resolve_index_def)

text \<open>
  Claim C2 fails on the code. In the document below the three references of the first
  face have the source triple (1, 0, 1), the texture index being absent and read as 0,
  and those of the second face have the source triple (1, 1, 1). The triples are
  distinct, but the zero index resolves to 1, the length of the texture array when the
  first face is read, and the texture coordinate declared next takes that index. All
  six references resolve to (1, 1, 1) and share output vertex 0: the parser emits a
  single vertex, whose texture coordinate is the fallback [0, 0], and the second face
  does not get the coordinate (0.5, 0.5) that the document declares for it.
\<close>

theorem vertex_dedup_zero_index:
  "map call_source (calls (parseOBJ_state zero_index_document)) =
     [(Some 1, Some 0, Some 1), (Some 1, Some 0, Some 1), (Some 1, Some 0, Some 1),
      (Some 1, Some 1, Some 1), (Some 1, Some 1, Some 1), (Some 1, Some 1, Some 1)] \<and>
   map call_resolved (calls (parseOBJ_state zero_index_document)) =
     [(Idx 1, Idx 1, Idx 1), (Idx 1, Idx 1, Idx 1), (Idx 1, Idx 1, Idx 1),
      (Idx 1, Idx 1, Idx 1), (Idx 1, Idx 1, Idx 1), (Idx 1, Idx 1, Idx 1)] \<and>
   out_indices (parseOBJ zero_index_document) = [0, 0, 0, 0, 0, 0] \<and>
   out_texcoords (parseOBJ zero_index_document) = [Num 0, Num 0] \<and>
   declared_texcoords (split_on newline zero_index_document) = [[Num (1 / 2), Num (1 / 2)]]"
  by (simp add: zero_index_document_def obj_eval js_eval doc_eval call_source_def
      call_resolved_def List.map_filter_def cong: let_weak_cong)

section \<open>OBJ parser: the emitted indices follow the fan over each face\<close>

lemma addVertex_calls:
  "\<exists>r. calls (snd (addVertex a b c st)) = calls st @ [((a, b, c), r, fst (addVertex a b c st))]"
  by (simp add: addVertex_def Let_def split: option.splits)

lemma push_triangle_calls:
  "\<exists>e0 e1 e2. calls (push_triangle v0 v1 v2 st) = calls st @ [e0, e1, e2] \<and>
     map call_source [e0, e1, e2] = map corner_args [v0, v1, v2] \<and>
     indices (push_triangle v0 v1 v2 st) = indices st @ map call_index [e0, e1, e2]"
proof -
  let ?r0 = "addVertex (vert v0) (tex v0) (norm_i v0) st"
  let ?r1 = "addVertex (vert v1) (tex v1) (norm_i v1) (snd ?r0)"
  let ?r2 = "addVertex (vert v2) (tex v2) (norm_i v2) (snd ?r1)"
  obtain x0 where c0: "calls (snd ?r0) = calls st @ [(corner_args v0, x0, fst ?r0)]"
    using addVertex_calls [of "vert v0" "tex v0" "norm_i v0" st] by (auto simp add: corner_args_def)
  obtain x1 where c1: "calls (snd ?r1) = calls (snd ?r0) @ [(corner_args v1, x1, fst ?r1)]"
    using addVertex_calls [of "vert v1" "tex v1" "norm_i v1" "snd ?r0"]
    by (auto simp add: corner_args_def)
  obtain x2 where c2: "calls (snd ?r2) = calls (snd ?r1) @ [(corner_args v2, x2, fst ?r2)]"
    using addVertex_calls [of "vert v2" "tex v2" "norm_i v2" "snd ?r1"]
    by (auto simp add: corner_args_def)
  have "calls (push_triangle v0 v1 v2 st) =
      calls st @ [(corner_args v0, x0, fst ?r0), (corner_args v1, x1, fst ?r1),
                  (corner_args v2, x2, fst ?r2)]"
    by (simp add: push_triangle_def Let_def c0 c1 c2)
  moreover have "indices (push_triangle v0 v1 v2 st) = indices st @ [fst ?r0, fst ?r1, fst ?r2]"
    by (simp add: push_triangle_def Let_def addVertex_frame)
  ultimately show ?thesis
    by (intro exI [of _ "(corner_args v0, x0, fst ?r0)"] exI [of _ "(corner_args v1, x1, fst ?r1)"]
        exI [of _ "(corner_args v2, x2, fst ?r2)"])
       (simp add: call_source_def call_index_def)
qed

lemma push_triangle_log:
  assumes "log_inv st"
  shows "log_inv (push_triangle v0 v1 v2 st)"
    and "map call_source (calls (push_triangle v0 v1 v2 st)) =
           map call_source (calls st) @ map corner_args [v0, v1, v2]"
  using push_triangle_calls [of v0 v1 v2 st] assms by (auto simp add: log_inv_def)

lemma triangulate_log:
  assumes "log_inv st"
  shows "log_inv (triangulate i vs st) \<and>
         map call_source (calls (triangulate i vs st)) =
           map call_source (calls st) @
           map corner_args (concat (map (\<lambda>i. [vs ! 0, vs ! i, vs ! (i + 1)]) [i ..< length vs - 1]))"
  using assms
proof (induction i vs st rule: triangulate.induct)
  case (1 i vertices st)
  show ?case
  proof (cases "int i < int (length vertices) - 1")
    case True
    then have lt: "i < length vertices - 1" by linarith
    let ?st = "push_triangle (vertices ! 0) (vertices ! i) (vertices ! (i + 1)) st"
    have step: "triangulate i vertices st = triangulate (i + 1) vertices ?st"
      using True by (rule triangulate_step)
    have IH: "log_inv (triangulate (i + 1) vertices ?st) \<and>
        map call_source (calls (triangulate (i + 1) vertices ?st)) =
          map call_source (calls ?st) @
          map corner_args (concat (map (\<lambda>i. [vertices ! 0, vertices ! i, vertices ! (i + 1)])
            [i + 1 ..< length vertices - 1]))"
      using "1.IH" [OF True] push_triangle_log(1) [OF "1.prems"] by simp
    have upt: "[i ..< length vertices - 1] = i # [i + 1 ..< length vertices - 1]"
      using lt by (simp add: upt_conv_Cons)
    show ?thesis
      unfolding step upt using IH push_triangle_log(2) [OF "1.prems"] by simp
  next
    case False
    then have "[i ..< length vertices - 1] = []" by simp
    with False "1.prems" show ?thesis by (simp add: triangulate_stop)
  qed
qed

lemma log_inv_frame:
  "indices st' = indices st \<Longrightarrow> calls st' = calls st \<Longrightarrow> log_inv st' = log_inv st"
  by (simp add: log_inv_def)

lemma startGeometry_calls: "calls (startGeometry m st) = calls st"
  by (simp add: startGeometry_def Let_def close_geometry_vertex)

lemma parseOBJ_line_log:
  assumes "log_inv st"
  shows "log_inv (parseOBJ_line st raw) \<and>
         map call_source (calls (parseOBJ_line st raw)) =
           map call_source (calls st) @
           map corner_args (case face_corners raw of None \<Rightarrow> [] | Some vs \<Rightarrow> fan vs)"
proof (cases "face_corners raw")
  case None
  then have "indices (parseOBJ_line st raw) = indices st \<and> calls (parseOBJ_line st raw) = calls st"
    by (auto simp add: parseOBJ_line_words face_corners_def startGeometry_frame
        startGeometry_calls split: list.splits if_splits)
  with None assms show ?thesis by (simp add: log_inv_def)
next
  case (Some vs)
  then obtain args where w: "line_words raw = ''f'' # args" and vs: "vs = map parse_corner args"
    by (auto simp add: face_corners_def split: list.splits if_splits)
  let ?st1 = "if geometry st = None then startGeometry (Some ''default'') st else st"
  have st1: "log_inv ?st1" "calls ?st1 = calls st"
    using assms by (simp_all add: log_inv_def startGeometry_frame startGeometry_calls)
  have p: "parseOBJ_line st raw = triangulate 1 vs ?st1"
    by (simp add: parseOBJ_line_words w vs Let_def)
  show ?thesis
    unfolding p using triangulate_log [OF st1(1), of 1 vs] Some
    by (simp add: st1(2) fan_def)
qed

lemma parseOBJ_lines_log:
  assumes "log_inv st"
  shows "log_inv (parseOBJ_lines st ls) \<and>
         map call_source (calls (parseOBJ_lines st ls)) =
           map call_source (calls st) @
           map corner_args (concat (map fan (List.map_filter face_corners ls)))"
  using assms
proof (induction ls arbitrary: st)
  case Nil
  then show ?case by (simp add: parseOBJ_lines_def)
next
  case (Cons l ls)
  from parseOBJ_line_log [OF Cons.prems, of l]
  have a: "log_inv (parseOBJ_line st l)"
    and b: "map call_source (calls (parseOBJ_line st l)) =
           map call_source (calls st) @
           map corner_args (case face_corners l of None \<Rightarrow> [] | Some vs \<Rightarrow> fan vs)"
    by simp_all
  from Cons.IH [OF a] show ?case
    by (simp add: parseOBJ_lines_Cons b split: option.splits)
qed

lemma parseOBJ_state_log:
  "out_indices (parseOBJ doc) = map call_index (calls (parseOBJ_state doc))"
  "map call_source (calls (parseOBJ_state doc)) = fan_references doc"
proof -
  have i: "log_inv obj_init" by (simp add: log_inv_def obj_init_def)
  from parseOBJ_lines_log [OF i, of "split_on newline doc"]
  show "out_indices (parseOBJ doc) = map call_index (calls (parseOBJ_state doc))"
    and "map call_source (calls (parseOBJ_state doc)) = fan_references doc"
    by (simp_all add: parseOBJ_def parseOBJ_state_def Let_def close_geometry_frame
        close_geometry_vertex log_inv_def fan_references_def obj_init_def)
qed

section \<open>OBJ parser: the triangle count\<close>

text \<open>
  Claim C1. For every mesh document whose face records all have at least three corners,
  the number of index entries the parser emits is three times the sum, over the face
  records, of the corner count minus two: a face of k corners yields k - 2 triangles.
  They are produced by fan triangulation: the emitted indices are, in order, the
  indices \<^verbatim>\<open>addVertex\<close> returned for the references (corner 0, corner I, corner I + 1),
  I from 1 to k - 2, of each face in turn.
\<close>

theorem triangle_count:
  assumes "\<forall>k\<in>set (face_corner_counts doc). 3 \<le> k"
  shows "int (length (out_indices (parseOBJ doc))) =
           3 * (\<Sum>k\<leftarrow>face_corner_counts doc. int k - 2) \<and>
         out_indices (parseOBJ doc) = map call_index (calls (parseOBJ_state doc)) \<and>
         map call_source (calls (parseOBJ_state doc)) = fan_references doc"
proof -
  have "length (out_indices (parseOBJ doc)) =
          3 * (\<Sum>k\<leftarrow>face_corner_counts doc. k - 2)"
    by (simp add: parseOBJ_def parseOBJ_state_def Let_def close_geometry_frame
        parseOBJ_lines_length obj_init_def face_corner_counts_def)
  then have "int (length (out_indices (parseOBJ doc))) =
          3 * (\<Sum>k\<leftarrow>face_corner_counts doc. int k - 2)"
    using sum_list_minus2 [OF assms] by simp
  then show ?thesis
    by (simp add: parseOBJ_state_log)
qed



theorem triangle_count_witness:
  "face_corner_counts (unlines [''v 0 0 0'', ''v 1 0 0'', ''v 1 1 0'', ''v 0 1 0'', ''f 1 2 3 4'']) = [4] \<and>
   int (length (out_indices
     (parseOBJ (unlines [''v 0 0 0'', ''v 1 0 0'', ''v 1 1 0'', ''v 0 1 0'', ''f 1 2 3 4''])))) = 6"
proof -
  have counts: "face_corner_counts
      (unlines [''v 0 0 0'', ''v 1 0 0'', ''v 1 1 0'', ''v 0 1 0'', ''f 1 2 3 4'']) = [4]"
    by (simp add: doc_eval js_eval cong: let_weak_cong)
  then have "\<forall>k\<in>set (face_corner_counts
      (unlines [''v 0 0 0'', ''v 1 0 0'', ''v 1 1 0'', ''v 0 1 0'', ''f 1 2 3 4''])). 3 \<le> k"
    by simp
  from triangle_count [OF this, THEN conjunct1] counts show ?thesis by simp
qed

section \<open>Materials: parsing and resolution\<close>

text \<open>The definitions that evaluate the material parser on a concrete document.\<close>

lemmas mtl_eval =
  parseMTL_def parseMTL_line_def mtl_init_def property_handler_def parsed_material_def
  parseInt_num_def loadTextureFromPath_def inherited_raising_def empty_material_def
  resolve_material_def material_lookup_def resolve_mesh_def default_material_def

text \<open>The loop body in terms of the words of the line.\<close>

lemma parseMTL_line_words:
  "parseMTL_line st raw =
     (case line_words raw of
        [] \<Rightarrow> Inr st
      | keyword # parts \<Rightarrow>
          if keyword = ''newmtl'' then
            Inr (st\<lparr>materials := (materials st)(join_sp parts \<mapsto> empty_material),
                    material_name := Some (join_sp parts)\<rparr>)
          else
            (case property_handler keyword parts of
               Some assign \<Rightarrow>
                 (case material_name st of
                    None \<Rightarrow> Inl TypeError
                  | Some k \<Rightarrow>
                      Inr (st\<lparr>materials :=
                             (materials st)(k := map_option assign (materials st k))\<rparr>))
             | None \<Rightarrow>
                 if keyword \<in> set inherited_raising then Inl TypeError else Inr st))"
  by (simp add: parseMTL_line_def line_words_def Let_def)

text \<open>Whether a keyword has a property handler does not depend on the words after it.\<close>

lemma property_handler_tokens:
  "(property_handler keyword parts = None) = (property_handler keyword parts' = None)"
  by (simp add: property_handler_def)

section \<open>Both parsers: a malformed numeric token\<close>

text \<open>NaN is absorbing for the arithmetic of the \<^verbatim>\<open>vt\<close> and \<^verbatim>\<open>vn\<close> records.\<close>

lemma jmul_NaN: "jmul a NaN = NaN" "jmul NaN b = NaN"
  by (cases a; simp) simp

lemma jadd_NaN: "jadd a NaN = NaN" "jadd NaN b = NaN"
  by (cases a; simp) simp

lemma jdiv_NaN: "jdiv a NaN = NaN" "jdiv NaN b = NaN"
  by (cases a; simp) simp

lemma jsub_NaN: "jsub a NaN = NaN"
  by (simp add: jsub_def jadd_NaN)

lemma position_record_NaN:
  "i < 3 \<Longrightarrow> i < length args \<Longrightarrow> parseFloat (args ! i) = NaN \<Longrightarrow> position_record args ! i = NaN"
  by (simp add: position_record_def)

lemma texcoord_record_NaN:
  "i < 2 \<Longrightarrow> i < length args \<Longrightarrow> parseFloat (args ! i) = NaN \<Longrightarrow> texcoord_record args ! i = NaN"
  by (cases i) (auto simp add: texcoord_record_def parseFloat_opt_def nth_opt_def jsub_NaN less_Suc_eq)

lemma normal_record_NaN:
  assumes "i < 3" "i < length args" "parseFloat (args ! i) = NaN"
  shows "normal_record args = [NaN, NaN, NaN]"
proof -
  let ?xs = "map parseFloat (take 3 args)"
  have c: "component ?xs i = NaN"
    using assms by (simp add: component_def nth_opt_def)
  from assms(1) have "i = 0 \<or> i = 1 \<or> i = 2" by linarith
  then have "jsqrt (jadd (jadd (jmul (component ?xs 0) (component ?xs 0))
        (jmul (component ?xs 1) (component ?xs 1))) (jmul (component ?xs 2) (component ?xs 2))) = NaN"
    using c by (auto simp add: jmul_NaN jadd_NaN)
  then show ?thesis
    by (simp add: normal_record_def Let_def jdiv_NaN)
qed

text \<open>A face line: the index read from a malformed piece, and the indices it emits.\<close>

lemma parse_corner_zero:
  assumes "j < 3" "j < length (split_on (CHR ''/'') s)"
    and "parseInt (split_on (CHR ''/'') s ! j) = None"
  shows "[vert (parse_corner s), tex (parse_corner s), norm_i (parse_corner s)] ! j = Some 0"
proof -
  from assms(1) have "j = 0 \<or> j = 1 \<or> j = 2" by linarith
  then show ?thesis
    using assms(2,3) by (auto simp add: parse_corner_def Let_def nth_opt_def)
qed

lemma face_line_length:
  "line_words raw = ''f'' # args \<Longrightarrow>
   length (indices (parseOBJ_line st raw)) = length (indices st) + 3 * (length args - 2)"
  by (simp add: parseOBJ_line_length face_corner_count_def)

text \<open>
  Which lines of a material document raise: it depends on the keyword of the line and
  on whether a \<^verbatim>\<open>newmtl\<close> came before, never on the words after the keyword.
\<close>

lemma parseMTL_line_name:
  "parseMTL_line st raw = Inr st1 \<Longrightarrow>
   material_name st1 =
     (if line_keyword raw = Some ''newmtl'' then Some (join_sp (tl (line_words raw)))
      else material_name st)"
  by (auto simp add: parseMTL_line_words line_keyword_def
      split: list.splits option.splits if_splits)

lemma parseMTL_line_raises:
  assumes k: "line_keyword raw = line_keyword raw'"
    and n: "(material_name st = None) = (material_name st' = None)"
  shows "isl (parseMTL_line st raw) = isl (parseMTL_line st' raw')"
proof (cases "line_words raw")
  case Nil
  with k have "line_words raw' = []" by (simp add: line_keyword_def split: list.splits)
  with Nil show ?thesis by (simp add: parseMTL_line_words)
next
  case (Cons keyword parts)
  with k obtain parts' where w': "line_words raw' = keyword # parts'"
    by (auto simp add: line_keyword_def split: list.splits)
  have h: "(property_handler keyword parts = None) = (property_handler keyword parts' = None)"
    by (rule property_handler_tokens)
  show ?thesis
  proof (cases "property_handler keyword parts")
    case None
    with h have "property_handler keyword parts' = None" by simp
    with None Cons w' show ?thesis by (simp add: parseMTL_line_words)
  next
    case (Some a)
    with h obtain a' where "property_handler keyword parts' = Some a'" by auto
    with Some Cons w' n show ?thesis
      by (cases "material_name st"; cases "material_name st'") (simp_all add: parseMTL_line_words)
  qed
qed

lemma parseMTL_lines_raises:
  "map line_keyword ls = map line_keyword ls' \<Longrightarrow>
   (material_name st = None) = (material_name st' = None) \<Longrightarrow>
   isl (parseMTL_lines st ls) = isl (parseMTL_lines st' ls')"
proof (induction ls arbitrary: ls' st st')
  case Nil
  then show ?case by simp
next
  case (Cons l ls)
  then obtain l' ls1 where ls': "ls' = l' # ls1" by (cases ls') auto
  with Cons.prems have k: "line_keyword l = line_keyword l'"
    and ks: "map line_keyword ls = map line_keyword ls1" by auto
  have r: "isl (parseMTL_line st l) = isl (parseMTL_line st' l')"
    using k Cons.prems(2) by (rule parseMTL_line_raises)
  show ?case
  proof (cases "parseMTL_line st l")
    case (Inl e)
    with r obtain e' where "parseMTL_line st' l' = Inl e'" by (cases "parseMTL_line st' l'") auto
    with Inl show ?thesis by (simp add: ls')
  next
    case (Inr s)
    with r obtain s' where s': "parseMTL_line st' l' = Inr s'" by (cases "parseMTL_line st' l'") auto
    have "(material_name s = None) = (material_name s' = None)"
      using parseMTL_line_name [OF Inr] parseMTL_line_name [OF s'] k Cons.prems(2) by auto
    with ks have "isl (parseMTL_lines s ls) = isl (parseMTL_lines s' ls1)" by (rule Cons.IH)
    with Inr s' show ?thesis by (simp add: ls')
  qed
qed

lemma parseMTL_raises:
  "map line_keyword (split_on newline doc) = map line_keyword (split_on newline doc') \<Longrightarrow>
   isl (parseMTL doc) = isl (parseMTL doc')"
  using parseMTL_lines_raises [of "split_on newline doc" "split_on newline doc'" mtl_init mtl_init]
  by (auto simp add: parseMTL_def split: sum.splits)

text \<open>
  Claim C4, as amended. A malformed numeric token (one in which \<^verbatim>\<open>parseFloat\<close>, or
  \<^verbatim>\<open>parseInt\<close> for a face index and for \<^verbatim>\<open>illum\<close>, finds no number) never makes parsing
  abort, but the line that holds it is not skipped: it has the effect of a line of its
  kind, with NaN as the value read from the token.

  In a mesh document, whatever the state \<open>st\<close> the earlier lines left: a \<^verbatim>\<open>v\<close> line
  appends its position, whose component for the token (one of the first three) is NaN;
  a \<^verbatim>\<open>vt\<close> line appends its texture coordinate, whose component for the token (one of
  the first two) is NaN; a \<^verbatim>\<open>vn\<close> line appends the normal [NaN, NaN, NaN], since the
  normalisation spreads the NaN; a face line emits its triangles whatever its tokens,
  a malformed index being read as 0.

  In a material document with a material open: \<^verbatim>\<open>Ns\<close>, \<^verbatim>\<open>Ni\<close>, \<^verbatim>\<open>d\<close> and \<^verbatim>\<open>illum\<close> set
  their property to NaN when their first token is malformed, and \<^verbatim>\<open>Ka\<close>, \<^verbatim>\<open>Kd\<close>,
  \<^verbatim>\<open>Ks\<close>, \<^verbatim>\<open>Ke\<close> set their colour, whose component for the token is NaN.

  Two material documents whose lines have the same keywords either both raise or both
  parse: a material document raises (a TypeError, for a property line before any
  \<^verbatim>\<open>newmtl\<close>) whether or not its tokens are well formed. The mesh parser has no error
  value, and reads every document to its end: afterwards the arrays hold, behind the
  record at index 0, one record for each \<^verbatim>\<open>v\<close>, \<^verbatim>\<open>vt\<close> and \<^verbatim>\<open>vn\<close> line of the document,
  in order, and the indices count three for each triangle of each face line.
\<close>

theorem malformed_token_stored:
  "(line_words raw = ''v'' # args \<longrightarrow> i < 3 \<longrightarrow> i < length args \<longrightarrow> parseFloat (args ! i) = NaN \<longrightarrow>
      parseOBJ_line st raw = st\<lparr>positions := positions st @ [position_record args]\<rparr> \<and>
      position_record args ! i = NaN) \<and>
   (line_words raw = ''vt'' # args \<longrightarrow> i < 2 \<longrightarrow> i < length args \<longrightarrow> parseFloat (args ! i) = NaN \<longrightarrow>
      parseOBJ_line st raw = st\<lparr>texcoords := texcoords st @ [texcoord_record args]\<rparr> \<and>
      texcoord_record args ! i = NaN) \<and>
   (line_words raw = ''vn'' # args \<longrightarrow> i < 3 \<longrightarrow> i < length args \<longrightarrow> parseFloat (args ! i) = NaN \<longrightarrow>
      parseOBJ_line st raw = st\<lparr>normals := normals st @ [[NaN, NaN, NaN]]\<rparr>) \<and>
   (line_words raw = ''f'' # args \<longrightarrow>
      length (indices (parseOBJ_line st raw)) = length (indices st) + 3 * (length args - 2)) \<and>
   (j < 3 \<longrightarrow> j < length (split_on (CHR ''/'') s) \<longrightarrow>
    parseInt (split_on (CHR ''/'') s ! j) = None \<longrightarrow>
      [vert (parse_corner s), tex (parse_corner s), norm_i (parse_corner s)] ! j = Some 0) \<and>
   (line_words mraw = keyword # parts \<longrightarrow> material_name mst = Some k \<longrightarrow> parts \<noteq> [] \<longrightarrow>
    parseFloat (hd parts) = NaN \<longrightarrow>
      (keyword = ''Ns'' \<longrightarrow>
         parseMTL_line mst mraw = Inr (assign_material k (\<lambda>m. m\<lparr>shininess := Some NaN\<rparr>) mst)) \<and>
      (keyword = ''Ni'' \<longrightarrow>
         parseMTL_line mst mraw = Inr (assign_material k (\<lambda>m. m\<lparr>opticalDensity := Some NaN\<rparr>) mst)) \<and>
      (keyword = ''d'' \<longrightarrow>
         parseMTL_line mst mraw = Inr (assign_material k (\<lambda>m. m\<lparr>opacity := Some NaN\<rparr>) mst))) \<and>
   (line_words mraw = ''illum'' # parts \<longrightarrow> material_name mst = Some k \<longrightarrow> parts \<noteq> [] \<longrightarrow>
    parseInt (hd parts) = None \<longrightarrow>
      parseMTL_line mst mraw = Inr (assign_material k (\<lambda>m. m\<lparr>illum := Some NaN\<rparr>) mst)) \<and>
   (line_words mraw = keyword # parts \<longrightarrow> material_name mst = Some k \<longrightarrow> i < length parts \<longrightarrow>
    parseFloat (parts ! i) = NaN \<longrightarrow>
      map parseFloat parts ! i = NaN \<and>
      (keyword = ''Ka'' \<longrightarrow>
         parseMTL_line mst mraw =
           Inr (assign_material k (\<lambda>m. m\<lparr>ambient := Some (map parseFloat parts)\<rparr>) mst)) \<and>
      (keyword = ''Kd'' \<longrightarrow>
         parseMTL_line mst mraw =
           Inr (assign_material k (\<lambda>m. m\<lparr>diffuse := Some (map parseFloat parts)\<rparr>) mst)) \<and>
      (keyword = ''Ks'' \<longrightarrow>
         parseMTL_line mst mraw =
           Inr (assign_material k (\<lambda>m. m\<lparr>specular := Some (map parseFloat parts)\<rparr>) mst)) \<and>
      (keyword = ''Ke'' \<longrightarrow>
         parseMTL_line mst mraw =
           Inr (assign_material k (\<lambda>m. m\<lparr>emissive := Some (map parseFloat parts)\<rparr>) mst))) \<and>
   (map line_keyword (split_on newline doc) = map line_keyword (split_on newline doc') \<longrightarrow>
      isl (parseMTL doc) = isl (parseMTL doc')) \<and>
   positions (parseOBJ_lines obj_init ls) = [Num 0, Num 0, Num 0] # declared_positions ls \<and>
   texcoords (parseOBJ_lines obj_init ls) = [Num 0, Num 0] # declared_texcoords ls \<and>
   normals (parseOBJ_lines obj_init ls) = [Num 0, Num 0, Num 0] # declared_normals ls \<and>
   length (indices (parseOBJ_lines obj_init ls)) =
     3 * (\<Sum>n\<leftarrow>List.map_filter face_corner_count ls. n - 2)"
proof (intro conjI impI)
  assume "line_words raw = ''v'' # args"
  then show "parseOBJ_line st raw = st\<lparr>positions := positions st @ [position_record args]\<rparr>"
    by (simp add: parseOBJ_line_words)
next
  assume "i < 3" "i < length args" "parseFloat (args ! i) = NaN"
  then show "position_record args ! i = NaN" by (rule position_record_NaN)
next
  assume "line_words raw = ''vt'' # args"
  then show "parseOBJ_line st raw = st\<lparr>texcoords := texcoords st @ [texcoord_record args]\<rparr>"
    by (simp add: parseOBJ_line_words)
next
  assume "i < 2" "i < length args" "parseFloat (args ! i) = NaN"
  then show "texcoord_record args ! i = NaN" by (rule texcoord_record_NaN)
next
  assume "line_words raw = ''vn'' # args" "i < 3" "i < length args" "parseFloat (args ! i) = NaN"
  then show "parseOBJ_line st raw = st\<lparr>normals := normals st @ [[NaN, NaN, NaN]]\<rparr>"
    by (simp add: parseOBJ_line_words normal_record_NaN)
next
  assume "line_words raw = ''f'' # args"
  then show "length (indices (parseOBJ_line st raw)) = length (indices st) + 3 * (length args - 2)"
    by (rule face_line_length)
next
  assume "j < 3" "j < length (split_on (CHR ''/'') s)"
    "parseInt (split_on (CHR ''/'') s ! j) = None"
  then show "[vert (parse_corner s), tex (parse_corner s), norm_i (parse_corner s)] ! j = Some 0"
    by (rule parse_corner_zero)
next
  assume "line_words mraw = keyword # parts" "material_name mst = Some k" "parts \<noteq> []"
    "parseFloat (hd parts) = NaN" "keyword = ''Ns''"
  then show "parseMTL_line mst mraw = Inr (assign_material k (\<lambda>m. m\<lparr>shininess := Some NaN\<rparr>) mst)"
    by (simp add: parseMTL_line_words property_handler_def assign_material_def
        parseFloat_opt_def nth_opt_def hd_conv_nth)
next
  assume "line_words mraw = keyword # parts" "material_name mst = Some k" "parts \<noteq> []"
    "parseFloat (hd parts) = NaN" "keyword = ''Ni''"
  then show "parseMTL_line mst mraw =
      Inr (assign_material k (\<lambda>m. m\<lparr>opticalDensity := Some NaN\<rparr>) mst)"
    by (simp add: parseMTL_line_words property_handler_def assign_material_def
        parseFloat_opt_def nth_opt_def hd_conv_nth)
next
  assume "line_words mraw = keyword # parts" "material_name mst = Some k" "parts \<noteq> []"
    "parseFloat (hd parts) = NaN" "keyword = ''d''"
  then show "parseMTL_line mst mraw = Inr (assign_material k (\<lambda>m. m\<lparr>opacity := Some NaN\<rparr>) mst)"
    by (simp add: parseMTL_line_words property_handler_def assign_material_def
        parseFloat_opt_def nth_opt_def hd_conv_nth)
next
  assume "line_words mraw = ''illum'' # parts" "material_name mst = Some k" "parts \<noteq> []"
    "parseInt (hd parts) = None"
  then show "parseMTL_line mst mraw = Inr (assign_material k (\<lambda>m. m\<lparr>illum := Some NaN\<rparr>) mst)"
    by (simp add: parseMTL_line_words property_handler_def assign_material_def
        parseInt_num_def nth_opt_def hd_conv_nth)
next
  assume "i < length parts" "parseFloat (parts ! i) = NaN"
  then show "map parseFloat parts ! i = NaN" by simp
next
  assume "line_words mraw = keyword # parts" "material_name mst = Some k" "keyword = ''Ka''"
  then show "parseMTL_line mst mraw =
      Inr (assign_material k (\<lambda>m. m\<lparr>ambient := Some (map parseFloat parts)\<rparr>) mst)"
    by (simp add: parseMTL_line_words property_handler_def assign_material_def)
next
  assume "line_words mraw = keyword # parts" "material_name mst = Some k" "keyword = ''Kd''"
  then show "parseMTL_line mst mraw =
      Inr (assign_material k (\<lambda>m. m\<lparr>diffuse := Some (map parseFloat parts)\<rparr>) mst)"
    by (simp add: parseMTL_line_words property_handler_def assign_material_def)
next
  assume "line_words mraw = keyword # parts" "material_name mst = Some k" "keyword = ''Ks''"
  then show "parseMTL_line mst mraw =
      Inr (assign_material k (\<lambda>m. m\<lparr>specular := Some (map parseFloat parts)\<rparr>) mst)"
    by (simp add: parseMTL_line_words property_handler_def assign_material_def)
next
  assume "line_words mraw = keyword # parts" "material_name mst = Some k" "keyword = ''Ke''"
  then show "parseMTL_line mst mraw =
      Inr (assign_material k (\<lambda>m. m\<lparr>emissive := Some (map parseFloat parts)\<rparr>) mst)"
    by (simp add: parseMTL_line_words property_handler_def assign_material_def)
next
  assume "map line_keyword (split_on newline doc) = map line_keyword (split_on newline doc')"
  then show "isl (parseMTL doc) = isl (parseMTL doc')" by (rule parseMTL_raises)
next
  show "positions (parseOBJ_lines obj_init ls) = [Num 0, Num 0, Num 0] # declared_positions ls"
    by (simp add: parseOBJ_lines_positions obj_init_def)
next
  show "texcoords (parseOBJ_lines obj_init ls) = [Num 0, Num 0] # declared_texcoords ls"
    by (simp add: parseOBJ_lines_texcoords obj_init_def)
next
  show "normals (parseOBJ_lines obj_init ls) = [Num 0, Num 0, Num 0] # declared_normals ls"
    by (simp add: parseOBJ_lines_normals obj_init_def)
next
  show "length (indices (parseOBJ_lines obj_init ls)) =
      3 * (\<Sum>n\<leftarrow>List.map_filter face_corner_count ls. n - 2)"
    by (simp add: parseOBJ_lines_length obj_init_def)
qed

theorem malformed_token_stored_witness:
  "positions (parseOBJ_line obj_init ''v 1 x 3'') =
     [[Num 0, Num 0, Num 0], [Num 1, NaN, Num 3]] \<and>
   texcoords (parseOBJ_line obj_init ''vt 0.5 y'') = [[Num 0, Num 0], [Num (1 / 2), NaN]] \<and>
   normals (parseOBJ_line obj_init ''vn a 0 1'') = [[Num 0, Num 0, Num 0], [NaN, NaN, NaN]] \<and>
   length (indices (parseOBJ_line obj_init ''f 1/x 2 3'')) = 3 \<and>
   tex (parse_corner ''1/x'') = Some 0 \<and>
   parseMTL_line (mtl_init\<lparr>materials := [''leaf'' \<mapsto> empty_material], material_name := Some ''leaf''\<rparr>)
       ''Ns abc'' =
     Inr \<lparr>materials = [''leaf'' \<mapsto> empty_material\<lparr>shininess := Some NaN\<rparr>],
          material_name = Some ''leaf''\<rparr> \<and>
   parseMTL_line (mtl_init\<lparr>materials := [''leaf'' \<mapsto> empty_material], material_name := Some ''leaf''\<rparr>)
       ''illum two'' =
     Inr \<lparr>materials = [''leaf'' \<mapsto> empty_material\<lparr>illum := Some NaN\<rparr>],
          material_name = Some ''leaf''\<rparr> \<and>
   parseMTL_line (mtl_init\<lparr>materials := [''leaf'' \<mapsto> empty_material], material_name := Some ''leaf''\<rparr>)
       ''Kd 1 g 0'' =
     Inr \<lparr>materials = [''leaf'' \<mapsto> empty_material\<lparr>diffuse := Some [Num 1, NaN, Num 0]\<rparr>],
          material_name = Some ''leaf''\<rparr> \<and>
   \<not> isl (parseMTL (unlines [''newmtl leaf'', ''Ns abc'']))"
proof -
  let ?m = "mtl_init\<lparr>materials := [''leaf'' \<mapsto> empty_material], material_name := Some ''leaf''\<rparr>"
  have words:
    "line_words ''v 1 x 3'' = ''v'' # [''1'', ''x'', ''3'']"
    "line_words ''vt 0.5 y'' = ''vt'' # [''0.5'', ''y'']"
    "line_words ''vn a 0 1'' = ''vn'' # [''a'', ''0'', ''1'']"
    "line_words ''f 1/x 2 3'' = ''f'' # [''1/x'', ''2'', ''3'']"
    "line_words ''Ns abc'' = ''Ns'' # [''abc'']"
    "line_words ''illum two'' = ''illum'' # [''two'']"
    "line_words ''Kd 1 g 0'' = ''Kd'' # [''1'', ''g'', ''0'']"
    by (simp_all add: line_words_def js_eval cong: let_weak_cong)
  have floats:
    "parseFloat ''x'' = NaN" "parseFloat ''y'' = NaN" "parseFloat ''a'' = NaN"
    "parseFloat ''abc'' = NaN" "parseFloat ''g'' = NaN"
    "parseFloat ''1'' = Num 1" "parseFloat ''3'' = Num 3" "parseFloat ''0'' = Num 0"
    "parseFloat ''0.5'' = Num (1 / 2)"
    by (simp_all add: js_eval cong: let_weak_cong)
  have ints: "parseInt ''x'' = None" "parseInt ''two'' = None"
    by (simp_all add: js_eval cong: let_weak_cong)
  have name: "material_name ?m = Some ''leaf''" by simp
  have v: "parseOBJ_line obj_init ''v 1 x 3'' =
      obj_init\<lparr>positions := positions obj_init @ [position_record [''1'', ''x'', ''3'']]\<rparr>"
    using malformed_token_stored [where raw = "''v 1 x 3''" and args = "[''1'', ''x'', ''3'']"
        and i = 1 and st = obj_init, THEN conjunct1]
    by (simp add: words floats)
  have vt: "parseOBJ_line obj_init ''vt 0.5 y'' =
      obj_init\<lparr>texcoords := texcoords obj_init @ [texcoord_record [''0.5'', ''y'']]\<rparr>"
    using malformed_token_stored [where raw = "''vt 0.5 y''" and args = "[''0.5'', ''y'']"
        and i = 1 and st = obj_init, THEN conjunct2, THEN conjunct1]
    by (simp add: words floats)
  have vn: "parseOBJ_line obj_init ''vn a 0 1'' =
      obj_init\<lparr>normals := normals obj_init @ [[NaN, NaN, NaN]]\<rparr>"
    using malformed_token_stored [where raw = "''vn a 0 1''" and args = "[''a'', ''0'', ''1'']"
        and i = 0 and st = obj_init, THEN conjunct2, THEN conjunct2, THEN conjunct1]
    by (simp add: words floats)
  have f: "length (indices (parseOBJ_line obj_init ''f 1/x 2 3'')) =
      length (indices obj_init) + 3 * (length [''1/x'', ''2'', ''3''] - 2)"
    using malformed_token_stored [where raw = "''f 1/x 2 3''" and args = "[''1/x'', ''2'', ''3'']"
        and st = obj_init, THEN conjunct2, THEN conjunct2, THEN conjunct2, THEN conjunct1]
    by (simp add: words)
  have sp: "split_on (CHR ''/'') ''1/x'' = [''1'', ''x'']" by simp
  have c: "[vert (parse_corner ''1/x''), tex (parse_corner ''1/x''), norm_i (parse_corner ''1/x'')] ! 1
      = Some 0"
    using malformed_token_stored [where s = "''1/x''" and j = 1,
        THEN conjunct2, THEN conjunct2, THEN conjunct2, THEN conjunct2, THEN conjunct1]
    by (simp add: sp ints)
  have ns: "parseMTL_line ?m ''Ns abc'' =
      Inr (assign_material ''leaf'' (\<lambda>m. m\<lparr>shininess := Some NaN\<rparr>) ?m)"
    using malformed_token_stored [where mraw = "''Ns abc''" and keyword = "''Ns''"
        and parts = "[''abc'']" and mst = ?m and k = "''leaf''",
        THEN conjunct2, THEN conjunct2, THEN conjunct2, THEN conjunct2, THEN conjunct2,
        THEN conjunct1]
    by (simp add: words floats)
  have il: "parseMTL_line ?m ''illum two'' =
      Inr (assign_material ''leaf'' (\<lambda>m. m\<lparr>illum := Some NaN\<rparr>) ?m)"
    using malformed_token_stored [where mraw = "''illum two''"
        and parts = "[''two'']" and mst = ?m and k = "''leaf''",
        THEN conjunct2, THEN conjunct2, THEN conjunct2, THEN conjunct2, THEN conjunct2,
        THEN conjunct2, THEN conjunct1]
    by (simp add: words ints)
  have kd: "parseMTL_line ?m ''Kd 1 g 0'' =
      Inr (assign_material ''leaf'' (\<lambda>m. m\<lparr>diffuse := Some (map parseFloat [''1'', ''g'', ''0''])\<rparr>) ?m)"
    using malformed_token_stored [where mraw = "''Kd 1 g 0''" and keyword = "''Kd''"
        and parts = "[''1'', ''g'', ''0'']" and mst = ?m and k = "''leaf''" and i = 1,
        THEN conjunct2, THEN conjunct2, THEN conjunct2, THEN conjunct2, THEN conjunct2,
        THEN conjunct2, THEN conjunct2, THEN conjunct1]
    by (simp add: words floats)
  have keys: "map line_keyword (split_on newline (unlines [''newmtl leaf'', ''Ns abc''])) =
      map line_keyword (split_on newline (unlines [''newmtl leaf'', ''Ns 10'']))"
    by (simp add: line_keyword_def line_words_def js_eval cong: let_weak_cong)
  have ok: "\<not> isl (parseMTL (unlines [''newmtl leaf'', ''Ns 10'']))"
    by (simp add: mtl_eval js_eval cong: let_weak_cong)
  have docs: "isl (parseMTL (unlines [''newmtl leaf'', ''Ns abc''])) =
      isl (parseMTL (unlines [''newmtl leaf'', ''Ns 10'']))"
    using malformed_token_stored [where doc = "unlines [''newmtl leaf'', ''Ns abc'']"
        and doc' = "unlines [''newmtl leaf'', ''Ns 10'']",
        THEN conjunct2, THEN conjunct2, THEN conjunct2, THEN conjunct2, THEN conjunct2,
        THEN conjunct2, THEN conjunct2, THEN conjunct2, THEN conjunct1] keys
    by blast
  have m: "assign_material ''leaf'' g ?m =
      \<lparr>materials = [''leaf'' \<mapsto> g empty_material], material_name = Some ''leaf''\<rparr>" for g
    by (simp add: assign_material_def mtl_init_def fun_eq_iff)
  show ?thesis
    unfolding v vt vn f ns il kd m
    using c ok docs
    by (simp add: obj_init_def position_record_def texcoord_record_def floats
        parseFloat_opt_def nth_opt_def jsub_def)
qed


text \<open>
  Claim C4 as stated fails: with the line \<^verbatim>\<open>v a 0 0\<close> the parse result is not what it
  is without the line. The malformed record takes index 1, so the face reads it and
  the two records after it, and the first output position is [NaN, 0, 0].
\<close>

theorem malformed_token_counterexample:
  "out_positions (parseOBJ (unlines
      [''v a 0 0'', ''v 1 0 0'', ''v 0 1 0'', ''v 0 0 1'', ''f 1 2 3''])) =
     [NaN, Num 0, Num 0, Num 1, Num 0, Num 0, Num 0, Num 1, Num 0] \<and>
   out_positions (parseOBJ (unlines
      [''v 1 0 0'', ''v 0 1 0'', ''v 0 0 1'', ''f 1 2 3''])) =
     [Num 1, Num 0, Num 0, Num 0, Num 1, Num 0, Num 0, Num 0, Num 1]"
  by (simp add: obj_eval js_eval cong: let_weak_cong)

section \<open>Materials: the defaults of material resolution\<close>

text \<open>
  Claim C5, as amended. Material resolution applies the defaults field by field. A
  section whose material name is not in the mapping gets the full default material.
  A material with only \<^verbatim>\<open>Ns\<close> set gets ambient [1,1,1], diffuse [0.64,0.64,0.64],
  specular [0.2,0.2,0.2], opacity 1.0 and illum 2; its shininess is the parsed value,
  unless that value is zero or NaN, in which case it is 32.0. For any material, each
  of the six fields is its own value or its own default, whatever the other fields.
\<close>

theorem material_defaults_fieldwise:
  "resolve_material None = default_material \<and>
   (material_lookup ms (material geom) = None \<longrightarrow>
      mesh_material (resolve_mesh ms geom) = default_material) \<and>
   resolve_material (Some (empty_material\<lparr>shininess := Some v\<rparr>)) =
     default_material\<lparr>shininess := Some (if falsy v then Num 32.0 else v)\<rparr> \<and>
   shininess (resolve_material (Some m)) = Some (or_number (shininess m) (Num 32.0)) \<and>
   ambient (resolve_material (Some m)) = Some (or_obj (ambient m) [Num 1.0, Num 1.0, Num 1.0]) \<and>
   diffuse (resolve_material (Some m)) = Some (or_obj (diffuse m) [Num 0.64, Num 0.64, Num 0.64]) \<and>
   specular (resolve_material (Some m)) = Some (or_obj (specular m) [Num 0.2, Num 0.2, Num 0.2]) \<and>
   opacity (resolve_material (Some m)) = Some (or_number (opacity m) (Num 1.0)) \<and>
   illum (resolve_material (Some m)) = Some (or_number (illum m) (Num 2))"
  by (simp add: resolve_material_def resolve_mesh_def default_material_def empty_material_def
      or_number_def or_obj_def)

theorem material_defaults_fieldwise_witness:
  "material_lookup Map.empty (material \<lparr>material = Some ''leaf'', startIndex = 0, indexCount = 3\<rparr>) = None \<and>
   mesh_material (resolve_mesh Map.empty \<lparr>material = Some ''leaf'', startIndex = 0, indexCount = 3\<rparr>) =
     default_material"
proof -
  have n: "material_lookup Map.empty (material \<lparr>material = Some ''leaf'', startIndex = 0, indexCount = 3\<rparr>) = None"
    by (simp add: material_lookup_def)
  from material_defaults_fieldwise [of Map.empty "\<lparr>material = Some ''leaf'', startIndex = 0, indexCount = 3\<rparr>"] n
  show ?thesis by blast
qed

text \<open>
  Claim C5 as stated fails where it says the shininess keeps the parsed value: the
  material below has only \<^verbatim>\<open>Ns\<close> set, to 0, and its resolved shininess is 32.
\<close>

theorem material_Ns_zero_counterexample:
  "parsed_material (unlines [''newmtl leaf'', ''Ns 0'']) ''leaf'' =
     Some (empty_material\<lparr>shininess := Some (Num 0)\<rparr>) \<and>
   shininess (resolve_material (parsed_material (unlines [''newmtl leaf'', ''Ns 0'']) ''leaf'')) =
     Some (Num 32)"
  by (simp add: mtl_eval js_eval cong: let_weak_cong)

text \<open>
  Claim C10. The defaults are taken by falsy coalescing: a material whose opacity,
  shininess or illum is explicitly zero resolves to the same material as one without
  that field, with opacity 1.0, shininess 32.0, illum 2; \<^verbatim>\<open>setupPlantMaterial\<close> uploads
  32.0 for a zero shininess as well; and the material parsed from \<^verbatim>\<open>d 0\<close>, \<^verbatim>\<open>Ns 0\<close>,
  \<^verbatim>\<open>illum 0\<close> resolves to what the material with none of these lines resolves to.
\<close>

theorem falsy_defaults:
  "resolve_material (Some (m\<lparr>opacity := Some (Num 0)\<rparr>)) = resolve_material (Some (m\<lparr>opacity := None\<rparr>)) \<and>
   opacity (resolve_material (Some (m\<lparr>opacity := Some (Num 0)\<rparr>))) = Some (Num 1.0) \<and>
   resolve_material (Some (m\<lparr>shininess := Some (Num 0)\<rparr>)) = resolve_material (Some (m\<lparr>shininess := None\<rparr>)) \<and>
   shininess (resolve_material (Some (m\<lparr>shininess := Some (Num 0)\<rparr>))) = Some (Num 32.0) \<and>
   resolve_material (Some (m\<lparr>illum := Some (Num 0)\<rparr>)) = resolve_material (Some (m\<lparr>illum := None\<rparr>)) \<and>
   illum (resolve_material (Some (m\<lparr>illum := Some (Num 0)\<rparr>))) = Some (Num 2) \<and>
   uniforms (setupPlantMaterial (mm\<lparr>mesh_material := (mesh_material mm)\<lparr>shininess := Some (Num 0)\<rparr>\<rparr>) s)
     ''uShininess'' = Some (UFloat (Num 32.0)) \<and>
   parsed_material (unlines [''newmtl leaf'', ''d 0'', ''Ns 0'', ''illum 0'']) ''leaf'' =
     Some (empty_material\<lparr>opacity := Some (Num 0), shininess := Some (Num 0), illum := Some (Num 0)\<rparr>) \<and>
   resolve_material (parsed_material (unlines [''newmtl leaf'', ''d 0'', ''Ns 0'', ''illum 0'']) ''leaf'') =
     resolve_material (parsed_material (unlines [''newmtl leaf'']) ''leaf'')"
proof -
  have r: "resolve_material (Some (m\<lparr>opacity := Some (Num 0)\<rparr>)) = resolve_material (Some (m\<lparr>opacity := None\<rparr>))"
    "opacity (resolve_material (Some (m\<lparr>opacity := Some (Num 0)\<rparr>))) = Some (Num 1.0)"
    "resolve_material (Some (m\<lparr>shininess := Some (Num 0)\<rparr>)) = resolve_material (Some (m\<lparr>shininess := None\<rparr>))"
    "shininess (resolve_material (Some (m\<lparr>shininess := Some (Num 0)\<rparr>))) = Some (Num 32.0)"
    "resolve_material (Some (m\<lparr>illum := Some (Num 0)\<rparr>)) = resolve_material (Some (m\<lparr>illum := None\<rparr>))"
    "illum (resolve_material (Some (m\<lparr>illum := Some (Num 0)\<rparr>))) = Some (Num 2)"
    by (simp_all add: resolve_material_def or_number_def or_obj_def)
  have u: "uniforms (setupPlantMaterial (mm\<lparr>mesh_material := (mesh_material mm)\<lparr>shininess := Some (Num 0)\<rparr>\<rparr>) s)
     ''uShininess'' = Some (UFloat (Num 32.0))"
    by (simp add: setupPlantMaterial_def do_all_def set_uniform_def uniform1i_def uniform1f_def
        uniform3f_def activeTexture_def bindTexture_def uniformLocations_def or_number_def)
  have p: "parsed_material (unlines [''newmtl leaf'', ''d 0'', ''Ns 0'', ''illum 0'']) ''leaf'' =
     Some (empty_material\<lparr>opacity := Some (Num 0), shininess := Some (Num 0), illum := Some (Num 0)\<rparr>)"
    by (simp add: mtl_eval js_eval cong: let_weak_cong)
  have q: "parsed_material (unlines [''newmtl leaf'']) ''leaf'' = Some empty_material"
    by (simp add: mtl_eval js_eval cong: let_weak_cong)
  have e: "resolve_material (parsed_material (unlines [''newmtl leaf'', ''d 0'', ''Ns 0'', ''illum 0'']) ''leaf'') =
     resolve_material (parsed_material (unlines [''newmtl leaf'']) ''leaf'')"
    unfolding p q by (simp add: resolve_material_def or_number_def or_obj_def empty_material_def)
  from r u p e show ?thesis by blast
qed

section \<open>Fragment shader: a metallic surface has no diffuse term\<close>

lemma vscale_zero: "vscale v 0 = vec3_of 0"
  by (cases v) (simp add: vec3_of_def)

lemma vmul_zero_left: "vmul (vec3_of 0) v = vec3_of 0"
  by (cases v) (simp add: vec3_of_def)

lemma vdiv_zero: "vdiv (vec3_of 0) k = vec3_of 0"
  by (simp add: vec3_of_def)

lemma vadd_zero_left: "vadd (vec3_of 0) v = v"
  by (cases v) (simp add: vec3_of_def)

text \<open>
  Claim C7. For every fragment whose sampled metallic value is 1, the diffuse factor kD
  is zero whatever the Fresnel value F is (kS is F, and kD is 1 - kS scaled by
  1 - metallic), so the outgoing radiance is the specular term alone, times the
  radiance and N.L. The arithmetic is that of the reals.
\<close>

theorem metallic_suppresses_diffuse:
  assumes "sample_metallic f = 1"
  shows "sh_kD (fragment_main f) = (0, 0, 0) \<and>
         sh_kS (fragment_main f) = sh_F (fragment_main f) \<and>
         sh_Lo (fragment_main f) =
           vscale (vmul (sh_specular (fragment_main f)) (sh_radiance (fragment_main f)))
             (sh_NdotL (fragment_main f))"
  using assms
  by (simp add: fragment_main_def Let_def vscale_zero vmul_zero_left vdiv_zero vadd_zero_left)
     (simp add: vec3_of_def)

theorem metallic_suppresses_diffuse_witness:
  "sample_metallic example_fragment = 1 \<and> sh_kD (fragment_main example_fragment) = (0, 0, 0)"
proof -
  have m: "sample_metallic example_fragment = 1" by (simp add: example_fragment_def)
  from metallic_suppresses_diffuse [OF m] m show ?thesis by simp
qed

section \<open>Render loop: the plant lighting does not leak\<close>

lemmas gl_calls =
  set_uniform_def uniform1i_def uniform1f_def uniform3f_def uniformMatrix4fv_def
  activeTexture_def bindTexture_def bindArrayBuffer_def bindElementBuffer_def
  vertexAttribPointer_def drawElements_def gl_other_def upload_vec3_def do_all_def

lemma restore_lighting_effect:
  "lighting_of (uniforms (restore_lighting s)) = scene_lighting"
  "draws (restore_lighting s) = draws s"
  "uniforms (restore_lighting s) ''uUseSpecular'' = uniforms s ''uUseSpecular''"
  by (simp_all add: restore_lighting_def gl_calls uniformLocations_def CONFIG_def
      lighting_of_def scene_lighting_def)

lemma setupPlantMaterial_effect:
  "lighting_of (uniforms (setupPlantMaterial m s)) = plant_lighting"
  "draws (setupPlantMaterial m s) = draws s"
  "uniforms (setupPlantMaterial m s) ''uUseSpecular'' = uniforms s ''uUseSpecular''"
  by (simp_all add: setupPlantMaterial_def gl_calls uniformLocations_def
      lighting_of_def plant_lighting_def)

lemma drawPlant_mesh_effect:
  assumes "uniforms s ''uUseSpecular'' = Some (UInt 1)"
  shows "\<exists>d. draws (drawPlant_mesh m s) = draws s @ [d] \<and> plant_draw d \<and>
             dc_count d = mesh_indexCount m \<and> dc_offset d = mesh_startIndex m * 2"
    and "uniforms (drawPlant_mesh m s) ''uUseSpecular'' = Some (UInt 1)"
proof -
  have d: "drawPlant_mesh m s =
      drawElements (mesh_indexCount m) (mesh_startIndex m * 2) (setupPlantMaterial m s)"
    by (simp add: drawPlant_mesh_def do_all_def)
  show "\<exists>d. draws (drawPlant_mesh m s) = draws s @ [d] \<and> plant_draw d \<and>
             dc_count d = mesh_indexCount m \<and> dc_offset d = mesh_startIndex m * 2"
    unfolding d using assms
    by (simp add: drawElements_def setupPlantMaterial_effect plant_draw_def)
  show "uniforms (drawPlant_mesh m s) ''uUseSpecular'' = Some (UInt 1)"
    unfolding d using assms by (simp add: drawElements_def setupPlantMaterial_effect)
qed

lemma drawPlant_loop_effect:
  assumes "uniforms s ''uUseSpecular'' = Some (UInt 1)"
  shows "\<exists>ds. draws (fold drawPlant_mesh ms s) = draws s @ ds \<and>
              (\<forall>d\<in>set ds. plant_draw d) \<and>
              map dc_count ds = map mesh_indexCount ms \<and>
              map dc_offset ds = map (\<lambda>m. mesh_startIndex m * 2) ms"
  using assms
proof (induction ms arbitrary: s)
  case Nil
  then show ?case by simp
next
  case (Cons m ms)
  from drawPlant_mesh_effect [OF Cons.prems, of m]
  obtain d where d: "draws (drawPlant_mesh m s) = draws s @ [d]" "plant_draw d"
      "dc_count d = mesh_indexCount m" "dc_offset d = mesh_startIndex m * 2"
    and u: "uniforms (drawPlant_mesh m s) ''uUseSpecular'' = Some (UInt 1)"
    by blast
  from Cons.IH [OF u]
  obtain ds where ds: "draws (fold drawPlant_mesh ms (drawPlant_mesh m s)) =
        draws (drawPlant_mesh m s) @ ds" "\<forall>d\<in>set ds. plant_draw d"
      "map dc_count ds = map mesh_indexCount ms"
      "map dc_offset ds = map (\<lambda>m. mesh_startIndex m * 2) ms"
    by blast
  show ?case
    by (rule exI [of _ "d # ds"]) (simp add: d ds)
qed

lemma drawPlant_effect:
  "\<exists>ds. draws (drawPlant fr ms s) = draws s @ ds \<and>
        (\<forall>d\<in>set ds. plant_draw d) \<and>
        map dc_count ds = map mesh_indexCount ms \<and>
        map dc_offset ds = map (\<lambda>m. mesh_startIndex m * 2) ms"
  "lighting_of (uniforms (drawPlant fr ms s)) = scene_lighting"
proof -
  define s1 where "s1 = do_all
       [uniform1i (uniformLocations ''useSpecular'') 1,
        uniformMatrix4fv (uniformLocations ''world'') (plantWorldMatrix fr),
        bindArrayBuffer plant_positionBuffer,
        vertexAttribPointer ''aPosition'',
        bindArrayBuffer plant_texcoordBuffer,
        vertexAttribPointer ''aTexCoord'',
        bindArrayBuffer plant_normalBuffer,
        vertexAttribPointer ''aNormal'',
        bindElementBuffer plant_indexBuffer] s"
  have dp: "drawPlant fr ms s = restore_lighting (fold drawPlant_mesh ms s1)"
    by (simp add: drawPlant_def s1_def do_all_def)
  have u: "uniforms s1 ''uUseSpecular'' = Some (UInt 1)" and dr: "draws s1 = draws s"
    by (simp_all add: s1_def gl_calls uniformLocations_def)
  from drawPlant_loop_effect [OF u, of ms] dr
  show "\<exists>ds. draws (drawPlant fr ms s) = draws s @ ds \<and>
        (\<forall>d\<in>set ds. plant_draw d) \<and>
        map dc_count ds = map mesh_indexCount ms \<and>
        map dc_offset ds = map (\<lambda>m. mesh_startIndex m * 2) ms"
    by (simp add: dp restore_lighting_effect)
  show "lighting_of (uniforms (drawPlant fr ms s)) = scene_lighting"
    by (simp add: dp restore_lighting_effect)
qed

lemma updateUniforms_effect:
  "lighting_of (uniforms (updateUniforms fr s)) = scene_lighting"
  "draws (updateUniforms fr s) = draws s"
  by (simp_all add: updateUniforms_def gl_calls uniformLocations_def CONFIG_def
      lighting_of_def scene_lighting_def split: prod.splits)

lemma bindTextures_effect:
  "lighting_of (uniforms (bindTextures s)) = lighting_of (uniforms s)"
  "draws (bindTextures s) = draws s"
  by (simp_all add: bindTextures_def bindTextures_entry_def textures_def textureUnits_def
      gl_calls uniformLocations_def lighting_of_def)

lemma setupAttributes_effect:
  "uniforms (setupAttributes s) = uniforms s"
  "draws (setupAttributes s) = draws s"
  by (simp_all add: setupAttributes_def gl_calls)

lemma render_None:
  "\<exists>d. draws (render fr None s) = draws s @ [d] \<and> sphere_draw d"
  "lighting_of (uniforms (render fr None s)) = scene_lighting"
proof -
  define s1 where "s1 = bindTextures (updateUniforms fr (setupAttributes s))"
  have s1: "lighting_of (uniforms s1) = scene_lighting" "draws s1 = draws s"
    by (simp_all add: s1_def bindTextures_effect updateUniforms_effect setupAttributes_effect)
  have r: "render fr None s =
      drawElements sphere_index_count 0
        (bindElementBuffer indexBuffer (uniform1i (uniformLocations ''useSpecular'') 0 s1))"
    by (simp add: render_def do_all_def s1_def gl_other_def)
  show "\<exists>d. draws (render fr None s) = draws s @ [d] \<and> sphere_draw d"
    unfolding r using s1
    by (simp add: gl_calls uniformLocations_def sphere_draw_def lighting_of_def)
  show "lighting_of (uniforms (render fr None s)) = scene_lighting"
    unfolding r using s1
    by (simp add: gl_calls uniformLocations_def lighting_of_def)
qed

lemma render_Some: "render fr (Some ms) s = drawPlant fr ms (render fr None s)"
  by (simp add: render_def do_all_def)

lemma frame_draws_None: "\<exists>d. frame_draws fr None s = [d] \<and> sphere_draw d"
  using render_None(1) [of fr s] by (auto simp add: frame_draws_def)

lemma frame_draws_Some:
  "\<exists>d ds. frame_draws fr (Some ms) s = d # ds \<and> sphere_draw d \<and> (\<forall>d\<in>set ds. plant_draw d) \<and>
     map dc_count ds = map mesh_indexCount ms \<and>
     map dc_offset ds = map (\<lambda>m. mesh_startIndex m * 2) ms"
proof -
  obtain d where d: "draws (render fr None s) = draws s @ [d]" "sphere_draw d"
    using render_None(1) by blast
  obtain ds where ds: "draws (drawPlant fr ms (render fr None s)) = draws (render fr None s) @ ds"
      "\<forall>d\<in>set ds. plant_draw d" "map dc_count ds = map mesh_indexCount ms"
      "map dc_offset ds = map (\<lambda>m. mesh_startIndex m * 2) ms"
    using drawPlant_effect(1) by blast
  have "frame_draws fr (Some ms) s = d # ds"
    by (simp add: frame_draws_def render_Some ds d)
  with d ds show ?thesis by blast
qed

lemma frame_draws_hd:
  "frame_draws fr pm s \<noteq> [] \<and> sphere_draw (hd (frame_draws fr pm s))"
proof (cases pm)
  case None
  then show ?thesis using frame_draws_None [of fr s] by auto
next
  case (Some ms)
  then show ?thesis using frame_draws_Some [of fr ms s] by auto
qed

text \<open>
  Claim C9. In a frame that draws the plant, the first draw is the sphere's and the
  draws after it are one per plant mesh, in order, each with the mesh's index count and byte offset, and each
  observes the specular toggle on and the plant lighting, which differs from the scene
  lighting. After the frame the four lighting uniforms hold the configured scene
  values again. The sphere draw of the next frame observes the toggle off and the
  scene lighting, whether the frame before drew the plant or not.
\<close>

theorem plant_lighting_restored:
  "(\<forall>d\<in>set (tl (frame_draws fr (Some ms) s)). plant_draw d) \<and>
   plant_lighting \<noteq> scene_lighting \<and>
   map dc_count (tl (frame_draws fr (Some ms) s)) = map mesh_indexCount ms \<and>
   map dc_offset (tl (frame_draws fr (Some ms) s)) = map (\<lambda>m. mesh_startIndex m * 2) ms \<and>
   length (frame_draws fr (Some ms) s) = Suc (length ms) \<and>
   sphere_draw (hd (frame_draws fr (Some ms) s)) \<and>
   lighting_of (uniforms (render fr (Some ms) s)) = scene_lighting \<and>
   frame_draws fr' pm (render fr (Some ms) s) \<noteq> [] \<and>
   sphere_draw (hd (frame_draws fr' pm (render fr (Some ms) s))) \<and>
   frame_draws fr' pm (render fr None s) \<noteq> [] \<and>
   sphere_draw (hd (frame_draws fr' pm (render fr None s)))"
proof -
  obtain d ds where f: "frame_draws fr (Some ms) s = d # ds" "\<forall>d\<in>set ds. plant_draw d"
     "map dc_count ds = map mesh_indexCount ms"
     "map dc_offset ds = map (\<lambda>m. mesh_startIndex m * 2) ms"
    using frame_draws_Some by blast
  from f(3) have len: "length ds = length ms"
    by (metis length_map)
  have "lighting_of (uniforms (render fr (Some ms) s)) = scene_lighting"
    by (simp add: render_Some drawPlant_effect)
  moreover have "plant_lighting \<noteq> scene_lighting"
    by (simp add: plant_lighting_def scene_lighting_def)
  moreover have "sphere_draw (hd (frame_draws fr (Some ms) s))"
    by (simp add: frame_draws_hd)
  ultimately show ?thesis using f len by (simp add: frame_draws_hd)
qed

theorem plant_lighting_restored_witness:
  "plant_draw (hd (tl (frame_draws example_frame (Some [resolve_mesh Map.empty
      \<lparr>material = Some ''leaf'', startIndex = 0, indexCount = 3\<rparr>]) gl_init)))"
proof -
  let ?ms = "[resolve_mesh Map.empty \<lparr>material = Some ''leaf'', startIndex = 0, indexCount = 3\<rparr>]"
  let ?ds = "tl (frame_draws example_frame (Some ?ms) gl_init)"
  note th = plant_lighting_restored [of example_frame ?ms gl_init]
  note all_plant = th [THEN conjunct1]
  note counts = th [THEN conjunct2, THEN conjunct2, THEN conjunct1]
  have "length (map dc_count ?ds) = length (map mesh_indexCount ?ms)"
    by (simp only: counts)
  then have "length ?ds = 1" by simp
  then have "hd ?ds \<in> set ?ds" by (cases ?ds) simp_all
  with all_plant show ?thesis by (rule bspec)
qed

end
